theory Spec2Isabelle
  imports Complex_Main
begin

section \<open>Conventions\<close>

text \<open>
  This theory embeds the parts of the Mnemo emotion-model sources that the specification
  talks about: the dataset adapter and feature extractor (\<^verbatim>\<open>emotion_model/dataset.py\<close>),
  the split and the early-stopping loop of the training script
  (\<^verbatim>\<open>emotion_model/train.py\<close>), the serving classifier
  (\<^verbatim>\<open>ml_model/emotion_classifier.py\<close>) and the single-file command line
  (\<^verbatim>\<open>ml_model/classify_audio.py\<close>).

  \<^item> Python \<^verbatim>\<open>int\<close> is \<^typ>\<open>int\<close>; lengths and indices that Python produces itself
    (\<^verbatim>\<open>len\<close>, \<^verbatim>\<open>enumerate\<close>, \<^verbatim>\<open>range\<close>) are \<^typ>\<open>nat\<close>.
  \<^item> Python and NumPy floats are rendered as \<^typ>\<open>real\<close>: rounding, infinities and NaN
    are not modelled.
  \<^item> A one-dimensional array is a list, a two-dimensional array a list of rows.
  \<^item> Every Python exception that the modelled code can raise is a value of \<open>exn\<close>, and a
    function that can raise returns \<open>exn + 'a\<close> with \<open>Inl\<close> for the raise.
  \<^item> Calls into librosa and a loaded Keras model are parameters of the model, what reading a
    file yields is an argument, and \<^verbatim>\<open>random_split\<close> of torch follows its documentation;
    random draws are explicit arguments.
\<close>

datatype exn =
    KeyError string
  | IndexError string
  | ValueError string
  | OtherError string

text \<open>\<^verbatim>\<open>str(e)\<close>; a \<^verbatim>\<open>KeyError\<close> prints the \<^verbatim>\<open>repr\<close> of its key.\<close>

fun str_exn :: "exn \<Rightarrow> string" where
  "str_exn (KeyError k) = [CHR 0x27] @ k @ [CHR 0x27]"
| "str_exn (IndexError m) = m"
| "str_exn (ValueError m) = m"
| "str_exn (OtherError m) = m"

section \<open>Emotion classes\<close>

text \<open>\<^verbatim>\<open>train.py\<close>, lines 33 to 36.\<close>

definition EMOTION_CLASSES :: "string list" where
  "EMOTION_CLASSES = [''happy'', ''sad'', ''angry'', ''surprised'', ''neutral'']"

text \<open>
  A dict comprehension inserts its pairs from left to right, a later pair replacing an
  earlier one with the same key.
\<close>

fun dict_of :: "('k \<times> 'v) list \<Rightarrow> ('k \<times> 'v) list \<Rightarrow> ('k \<times> 'v) list" where
  "dict_of d [] = d"
| "dict_of d ((k, v) # kvs) =
     dict_of (if k \<in> fst ` set d then map (\<lambda>(k', v'). if k' = k then (k', v) else (k', v')) d
              else d @ [(k, v)]) kvs"

definition dict_get :: "('k \<times> 'v) list \<Rightarrow> 'k \<Rightarrow> 'v option" where
  "dict_get d k = map_of d k"

text \<open>\<^verbatim>\<open>{emotion: idx for idx, emotion in enumerate(classes)}\<close>\<close>

definition emotion_index_dict :: "string list \<Rightarrow> (string \<times> nat) list" where
  "emotion_index_dict classes = dict_of [] (map (\<lambda>(idx, emotion). (emotion, idx)) (enumerate 0 classes))"

definition EMOTION_TO_IDX :: "(string \<times> nat) list" where
  "EMOTION_TO_IDX = emotion_index_dict EMOTION_CLASSES"

text \<open>\<^verbatim>\<open>{idx: emotion for emotion, idx in EMOTION_TO_IDX.items()}\<close>\<close>

definition IDX_TO_EMOTION :: "(nat \<times> string) list" where
  "IDX_TO_EMOTION = dict_of [] (map (\<lambda>(emotion, idx). (idx, emotion)) EMOTION_TO_IDX)"

text \<open>\<^verbatim>\<open>dataset.py\<close>, lines 55 to 57: the dataset builds its own copy.\<close>

definition emotion_classes :: "string list" where
  "emotion_classes = [''happy'', ''sad'', ''angry'', ''surprised'', ''neutral'']"

definition emotion_to_idx :: "(string \<times> nat) list" where
  "emotion_to_idx = emotion_index_dict emotion_classes"

text \<open>\<^verbatim>\<open>emotion_classifier.py\<close>, line 23.\<close>

definition EMOTIONS :: "string list" where
  "EMOTIONS = [''happy'', ''sad'', ''angry'', ''surprised'', ''neutral'']"

section \<open>Training loop with early stopping\<close>

text \<open>
  \<^verbatim>\<open>train.py\<close>, lines 274 to 324. One epoch of optimisation followed by validation is
  summarised by the validation accuracy it reports, \<open>validate epoch\<close>. The state keeps what
  the loop keeps: the best accuracy, the patience counter, the history of validation
  accuracies, the epoch stored in the checkpoint \<^verbatim>\<open>best_model.pth\<close> (if one was written),
  the number of epochs that ran, and whether the \<^verbatim>\<open>break\<close> was taken.
\<close>

record train_state =
  best_val_acc :: real
  patience_counter :: int
  val_acc_history :: "real list"
  best_model_epoch :: "nat option"
  epochs_completed :: nat
  early_stopped :: bool

definition init_train_state :: train_state where
  "init_train_state =
     \<lparr>best_val_acc = 0, patience_counter = 0, val_acc_history = [],
      best_model_epoch = None, epochs_completed = 0, early_stopped = False\<rparr>"

text \<open>
  \<open>training_loop validate patience epoch remaining s\<close>: the body of
  \<^verbatim>\<open>for epoch in range(args.epochs)\<close> from epoch \<open>epoch\<close> on, with \<open>remaining\<close> values
  of the range left.
\<close>

fun training_loop :: "(nat \<Rightarrow> real) \<Rightarrow> int \<Rightarrow> nat \<Rightarrow> nat \<Rightarrow> train_state \<Rightarrow> train_state" where
  "training_loop validate patience epoch 0 s = s"
| "training_loop validate patience epoch (Suc remaining) s =
     (let val_acc = validate epoch;
          s1 = s\<lparr>val_acc_history := val_acc_history s @ [val_acc],
                 epochs_completed := epoch + 1\<rparr>
      in if val_acc > best_val_acc s1 then
           training_loop validate patience (epoch + 1) remaining
             (s1\<lparr>best_val_acc := val_acc, patience_counter := 0,
                  best_model_epoch := Some epoch\<rparr>)
         else
           (let s2 = s1\<lparr>patience_counter := patience_counter s1 + 1\<rparr>
            in if patience_counter s2 \<ge> patience then s2\<lparr>early_stopped := True\<rparr>
               else training_loop validate patience (epoch + 1) remaining s2))"

definition run_training :: "int \<Rightarrow> int \<Rightarrow> (nat \<Rightarrow> real) \<Rightarrow> train_state" where
  "run_training epochs early_stopping_patience validate =
     training_loop validate early_stopping_patience 0 (nat epochs) init_train_state"

text \<open>The validation accuracies of the worked example, one per epoch.\<close>

definition example_val_accs :: "nat \<Rightarrow> real" where
  "example_val_accs epoch = [0.5, 0.5, 0.4, 0.3] ! epoch"

section \<open>Python and NumPy primitives\<close>

text \<open>\<^verbatim>\<open>xs[i]\<close> on a list: a negative index counts from the end, an index out of range raises.\<close>

definition list_getitem :: "'a list \<Rightarrow> int \<Rightarrow> exn + 'a" where
  "list_getitem xs i =
     (if - int (length xs) \<le> i \<and> i < 0 then Inr (xs ! nat (int (length xs) + i))
      else if 0 \<le> i \<and> i < int (length xs) then Inr (xs ! nat i)
      else Inl (IndexError ''list index out of range''))"

text \<open>
  A slice bound \<open>i\<close> on a sequence of length \<open>n\<close>: negative bounds count from the end, and
  every bound is clipped to \<open>0 .. n\<close>.
\<close>

definition slice_bound :: "nat \<Rightarrow> int \<Rightarrow> nat" where
  "slice_bound n i = (if i < 0 then nat (int n + i) else min n (nat i))"

text \<open>\<^verbatim>\<open>xs[a:b]\<close>\<close>

definition py_slice :: "'a list \<Rightarrow> int \<Rightarrow> int \<Rightarrow> 'a list" where
  "py_slice xs a b =
     (let lo = slice_bound (length xs) a; hi = slice_bound (length xs) b
      in take (hi - lo) (drop lo xs))"

text \<open>\<^verbatim>\<open>int(x)\<close> on a float truncates towards zero.\<close>

definition py_int :: "real \<Rightarrow> int" where
  "py_int x = (if x < 0 then \<lceil>x\<rceil> else \<lfloor>x\<rfloor>)"

text \<open>\<^verbatim>\<open>np.zeros(n)\<close> raises on a negative length.\<close>

definition np_zeros :: "int \<Rightarrow> exn + real list" where
  "np_zeros n =
     (if n < 0 then Inl (ValueError ''negative dimensions are not allowed'')
      else Inr (replicate (nat n) 0))"

text \<open>
  \<^verbatim>\<open>np.pad(xs, (0, k), mode='constant')\<close>. Both call sites sit under a guard that makes the
  width non-negative, so the width is a \<^typ>\<open>nat\<close> here.
\<close>

definition np_pad_end :: "real list \<Rightarrow> nat \<Rightarrow> real list" where
  "np_pad_end xs k = xs @ replicate k 0"

text \<open>\<^verbatim>\<open>np.pad(m, ((0, 0), (0, k)), mode='constant')\<close>: every row grows by \<open>k\<close> zeros.\<close>

definition np_pad_time :: "real list list \<Rightarrow> nat \<Rightarrow> real list list" where
  "np_pad_time m k = map (\<lambda>row. np_pad_end row k) m"

text \<open>\<^verbatim>\<open>m[:, :t]\<close>\<close>

definition trim_time :: "real list list \<Rightarrow> int \<Rightarrow> real list list" where
  "trim_time m t = map (\<lambda>row. py_slice row 0 t) m"

text \<open>
  \<^verbatim>\<open>m.shape[1]\<close>. An array with no rows is the empty list, whose second dimension reads
  as 0.
\<close>

definition shape1 :: "'a list list \<Rightarrow> nat" where
  "shape1 m = (case m of [] \<Rightarrow> 0 | row # _ \<Rightarrow> length row)"

text \<open>\<open>has_shape m r c\<close>: the array \<open>m\<close> has shape \<open>(r, c)\<close>.\<close>

definition has_shape :: "'a list list \<Rightarrow> nat \<Rightarrow> nat \<Rightarrow> bool" where
  "has_shape m r c = (length m = r \<and> list_all (\<lambda>row. length row = c) m)"

text \<open>\<^verbatim>\<open>m[:, a:b] = 0\<close> on one row, and \<^verbatim>\<open>m[a:b, :] = 0\<close>.\<close>

definition zero_slice :: "int \<Rightarrow> int \<Rightarrow> real list \<Rightarrow> real list" where
  "zero_slice a b row =
     (let lo = slice_bound (length row) a; hi = slice_bound (length row) b
      in map (\<lambda>(j, x). if lo \<le> j \<and> j < hi then 0 else x) (enumerate 0 row))"

definition zero_columns :: "int \<Rightarrow> int \<Rightarrow> real list list \<Rightarrow> real list list" where
  "zero_columns a b m = map (zero_slice a b) m"

definition zero_rows :: "int \<Rightarrow> int \<Rightarrow> real list list \<Rightarrow> real list list" where
  "zero_rows a b m =
     (let lo = slice_bound (length m) a; hi = slice_bound (length m) b
      in map (\<lambda>(i, row). if lo \<le> i \<and> i < hi then map (\<lambda>x. 0) row else row) (enumerate 0 m))"

section \<open>The librosa calls\<close>

text \<open>
  The four librosa functions that the sources call are parameters, and each of them can
  raise:
  \<^item> \<open>librosa_load path sr duration\<close> is \<^verbatim>\<open>librosa.load(path, sr=sr, ...)\<close>: the decoded
    samples, or the exception the decoder raised;
  \<^item> \<open>util_normalize y\<close> is \<^verbatim>\<open>librosa.util.normalize(y)\<close>;
  \<^item> \<open>feature_melspectrogram y sr n_mels n_fft hop_length fmax\<close> is
    \<^verbatim>\<open>librosa.feature.melspectrogram\<close>;
  \<^item> \<open>power_to_db S\<close> is \<^verbatim>\<open>librosa.power_to_db(S, ref=np.max)\<close>.
\<close>

record librosa =
  librosa_load :: "string \<Rightarrow> int \<Rightarrow> real option \<Rightarrow> exn + real list"
  util_normalize :: "real list \<Rightarrow> exn + real list"
  feature_melspectrogram ::
    "real list \<Rightarrow> int \<Rightarrow> int \<Rightarrow> int \<Rightarrow> int \<Rightarrow> int option \<Rightarrow> exn + real list list"
  power_to_db :: "real list list \<Rightarrow> exn + real list list"

text \<open>
  When the library returns: on a buffer that has samples, normalisation returns a buffer of
  the same length; on such a buffer, with positive sample rate, number of mel bands,
  window and hop length and a positive upper frequency, the mel spectrogram is computed;
  a spectrogram that has entries is converted to decibels. On an empty buffer or an empty
  spectrogram the library takes a maximum of nothing and raises; nothing is assumed there.
\<close>

definition librosa_returns :: "librosa \<Rightarrow> bool" where
  "librosa_returns lib =
     ((\<forall>y. y \<noteq> [] \<longrightarrow> (\<exists>y'. util_normalize lib y = Inr y' \<and> length y' = length y)) \<and>
      (\<forall>y sr n n_fft hop fmax.
          y \<noteq> [] \<and> 0 < sr \<and> 0 < n \<and> 0 < n_fft \<and> 0 < hop \<and> (\<forall>f. fmax = Some f \<longrightarrow> 0 < f) \<longrightarrow>
          (\<exists>S. feature_melspectrogram lib y sr n n_fft hop fmax = Inr S)) \<and>
      (\<forall>S. concat S \<noteq> [] \<longrightarrow> (\<exists>db. power_to_db lib S = Inr db)))"

text \<open>
  The shape contract of the library: a mel spectrogram has \<open>n_mels\<close> rows of equal length,
  and the conversion to decibels keeps the shape of its argument.
\<close>

definition librosa_shapes :: "librosa \<Rightarrow> bool" where
  "librosa_shapes lib =
     ((\<forall>y sr n n_fft hop fmax S.
          feature_melspectrogram lib y sr n n_fft hop fmax = Inr S \<longrightarrow>
          has_shape S (nat n) (shape1 S)) \<and>
      (\<forall>S db. power_to_db lib S = Inr db \<longrightarrow> map length db = map length S))"

text \<open>
  The number of frames of a mel spectrogram: the transform is centred, so a signal of
  \<open>n\<close> samples has \<open>1 + n div hop_length\<close> frames.
\<close>

definition librosa_frames :: "librosa \<Rightarrow> bool" where
  "librosa_frames lib =
     (\<forall>y sr n n_fft hop fmax S.
        0 < n \<and> 0 < hop \<and> feature_melspectrogram lib y sr n n_fft hop fmax = Inr S \<longrightarrow>
        shape1 S = 1 + length y div nat hop)"

definition librosa_contract :: "librosa \<Rightarrow> bool" where
  "librosa_contract lib = (librosa_returns lib \<and> librosa_shapes lib \<and> librosa_frames lib)"

section \<open>Dataset adapter\<close>

text \<open>
  \<^verbatim>\<open>dataset.py\<close>. A manifest row is the dict that \<^verbatim>\<open>df.to_dict('records')\<close> yields, from
  column name to cell. \<open>read_csv\<close> stands for \<^verbatim>\<open>pd.read_csv(p).to_dict('records')\<close>.
\<close>

type_synonym row = "(string \<times> string) list"

record AudioEmotionDataset =
  data_dir :: string
  n_mels :: int
  time_steps :: int
  sample_rate :: int
  use_augmentation :: bool
  samples :: "row list"

text \<open>\<^verbatim>\<open>sum(1 for s in self.samples if s['label'] == emotion)\<close>\<close>

fun count_label :: "row list \<Rightarrow> string \<Rightarrow> exn + nat" where
  "count_label [] emotion = Inr 0"
| "count_label (s # ss) emotion =
     (case dict_get s ''label'' of
        None \<Rightarrow> Inl (KeyError ''label'')
      | Some l \<Rightarrow>
          (case count_label ss emotion of
             Inl e \<Rightarrow> Inl e
           | Inr c \<Rightarrow> Inr (if l = emotion then c + 1 else c)))"

text \<open>The loop that prints the class distribution; the result lists the printed counts.\<close>

fun class_distribution :: "row list \<Rightarrow> string list \<Rightarrow> exn + (string \<times> nat) list" where
  "class_distribution ss [] = Inr []"
| "class_distribution ss (emotion # emotions) =
     (case count_label ss emotion of
        Inl e \<Rightarrow> Inl e
      | Inr c \<Rightarrow>
          (case class_distribution ss emotions of
             Inl e \<Rightarrow> Inl e
           | Inr cs \<Rightarrow> Inr ((emotion, c) # cs)))"

text \<open>\<^verbatim>\<open>AudioEmotionDataset.__init__\<close>, lines 27 to 63.\<close>

definition AudioEmotionDataset_init ::
  "(string \<Rightarrow> exn + row list) \<Rightarrow> string \<Rightarrow> string \<Rightarrow> int \<Rightarrow> int \<Rightarrow> int \<Rightarrow> bool
     \<Rightarrow> exn + AudioEmotionDataset" where
  "AudioEmotionDataset_init read_csv csv_path dir mels steps rate aug =
     (case read_csv csv_path of
        Inl e \<Rightarrow> Inl e
      | Inr df \<Rightarrow>
          (let self = \<lparr>data_dir = dir, n_mels = mels, time_steps = steps, sample_rate = rate,
                       use_augmentation = aug, samples = df\<rparr>
           in case class_distribution (samples self) emotion_classes of
                Inl e \<Rightarrow> Inl e
              | Inr printed \<Rightarrow> Inr self))"

text \<open>\<^verbatim>\<open>__len__\<close>\<close>

definition len :: "AudioEmotionDataset \<Rightarrow> nat" where
  "len self = length (samples self)"

text \<open>
  \<^verbatim>\<open>_load_and_preprocess\<close>, lines 92 to 151, in three parts. Line 116: the number of
  samples that \<open>time_steps\<close> frames of 10 ms take.
\<close>

definition target_length :: "AudioEmotionDataset \<Rightarrow> int" where
  "target_length self =
     py_int (real_of_int (sample_rate self) * (real_of_int (time_steps self) * 0.01))"

text \<open>
  Lines 110 to 123: the buffer is padded to one second at least, then cut from its centre
  or padded at its end to the target length.
\<close>

definition fit_audio :: "AudioEmotionDataset \<Rightarrow> real list \<Rightarrow> real list" where
  "fit_audio self audio0 =
     (let min_length = py_int (real_of_int (sample_rate self) * 1.0);
          audio1 = (if int (length audio0) < min_length
                    then np_pad_end audio0 (nat (min_length - int (length audio0)))
                    else audio0)
      in if int (length audio1) > target_length self
         then (let start = (int (length audio1) - target_length self) div 2
               in py_slice audio1 start (start + target_length self))
         else np_pad_end audio1 (nat (target_length self - int (length audio1))))"

text \<open>Lines 142 to 149: the time axis is padded or cut to \<open>time_steps\<close> frames.\<close>

definition fit_frames :: "AudioEmotionDataset \<Rightarrow> real list list \<Rightarrow> real list list" where
  "fit_frames self log_mel_spec =
     (if int (shape1 log_mel_spec) < time_steps self
      then np_pad_time log_mel_spec (nat (time_steps self - int (shape1 log_mel_spec)))
      else if int (shape1 log_mel_spec) > time_steps self
      then trim_time log_mel_spec (time_steps self)
      else log_mel_spec)"

text \<open>
  The whole function. Only \<^verbatim>\<open>librosa.load\<close> sits inside the \<^verbatim>\<open>try\<close>; an exception of
  \<^verbatim>\<open>np.zeros\<close> in the handler or of one of the three later library calls leaves the
  function.
\<close>

definition load_and_preprocess :: "librosa \<Rightarrow> AudioEmotionDataset \<Rightarrow> string \<Rightarrow> exn + real list list" where
  "load_and_preprocess lib self audio_path =
     (case (case librosa_load lib audio_path (sample_rate self) None of
              Inr decoded \<Rightarrow> Inr decoded
            | Inl e \<Rightarrow> np_zeros (sample_rate self * 2)) of
        Inl e \<Rightarrow> Inl e
      | Inr audio0 \<Rightarrow>
          (case util_normalize lib (fit_audio self audio0) of
             Inl e \<Rightarrow> Inl e
           | Inr audio \<Rightarrow>
               (case feature_melspectrogram lib audio (sample_rate self) (n_mels self)
                       2048 512 (Some (sample_rate self div 2)) of
                  Inl e \<Rightarrow> Inl e
                | Inr mel_spec \<Rightarrow>
                    (case power_to_db lib mel_spec of
                       Inl e \<Rightarrow> Inl e
                     | Inr log_mel_spec \<Rightarrow> Inr (fit_frames self log_mel_spec)))))"

text \<open>
  The values that NumPy's generator returns to the calls of \<^verbatim>\<open>_augment\<close>, in call order:
  the Gaussian noise for cell \<open>(i, j)\<close>, the gain, the number that gates time masking, the
  width and the start of the time mask, and the same three for frequency masking. A start
  is drawn by \<^verbatim>\<open>randint(0, high)\<close>, so it is a function of \<open>high\<close>.
\<close>

record augment_draws =
  noise_draw :: "nat \<Rightarrow> nat \<Rightarrow> real"
  gain_draw :: real
  time_mask_gate :: real
  time_mask_width :: int
  time_mask_start :: "int \<Rightarrow> int"
  freq_mask_gate :: real
  freq_mask_height :: int
  freq_mask_start :: "int \<Rightarrow> int"

text \<open>\<^verbatim>\<open>spectrogram + noise\<close>, the noise having the shape of the spectrogram.\<close>

definition add_noise :: "(nat \<Rightarrow> nat \<Rightarrow> real) \<Rightarrow> real list list \<Rightarrow> real list list" where
  "add_noise noise m =
     map (\<lambda>(i, row). map (\<lambda>(j, x). x + noise i j) (enumerate 0 row)) (enumerate 0 m)"

text \<open>\<^verbatim>\<open>_augment\<close>, lines 153 to 183.\<close>

definition augment :: "AudioEmotionDataset \<Rightarrow> augment_draws \<Rightarrow> real list list \<Rightarrow> real list list" where
  "augment self d spectrogram =
     (let s1 = add_noise (noise_draw d) spectrogram;
          s2 = map (map (\<lambda>x. x * gain_draw d)) s1;
          s3 = (if time_mask_gate d > 0.5
                then (let mask_width = time_mask_width d;
                          mask_start = time_mask_start d (max 1 (time_steps self - mask_width))
                      in zero_columns mask_start (mask_start + mask_width) s2)
                else s2);
          s4 = (if freq_mask_gate d > 0.5
                then (let mask_height = freq_mask_height d;
                          mask_start = freq_mask_start d (max 1 (n_mels self - mask_height))
                      in zero_rows mask_start (mask_start + mask_height) s3)
                else s3)
      in s4)"

text \<open>
  \<^verbatim>\<open>str(self.data_dir / sample['path'])\<close> with POSIX paths. The two strings are joined as
  \<^verbatim>\<open>os.path.join\<close> joins them (an absolute right operand replaces the left one), and the
  result is printed the way \<^verbatim>\<open>pathlib\<close> prints a path: the root, then the components
  that are neither empty nor a single dot, separated by one slash; \<^verbatim>\<open>.\<close> when nothing is
  left.
\<close>

fun split_sep :: "string \<Rightarrow> string list" where
  "split_sep [] = [[]]"
| "split_sep (c # cs) =
     (if c = CHR ''/'' then [] # split_sep cs
      else (case split_sep cs of [] \<Rightarrow> [[c]] | x # xs \<Rightarrow> (c # x) # xs))"

fun join_sep :: "string list \<Rightarrow> string" where
  "join_sep [] = []"
| "join_sep [x] = x"
| "join_sep (x # y # ys) = x @ ''/'' @ join_sep (y # ys)"

definition posix_join :: "string \<Rightarrow> string \<Rightarrow> string" where
  "posix_join a b =
     (if take 1 b = ''/'' then b
      else if a = [] \<or> last a = CHR ''/'' then a @ b
      else a @ ''/'' @ b)"

definition path_root :: "string \<Rightarrow> string" where
  "path_root s =
     (if take 1 s \<noteq> ''/'' then []
      else if take 1 (drop 1 s) \<noteq> ''/'' \<or> take 1 (drop 2 s) = ''/'' then ''/''
      else ''//'')"

definition path_parts :: "string \<Rightarrow> string list" where
  "path_parts s = filter (\<lambda>x. x \<noteq> [] \<and> x \<noteq> ''.'') (split_sep s)"

definition path_str :: "string \<Rightarrow> string" where
  "path_str s =
     (if path_root s = [] \<and> path_parts s = [] then ''.''
      else path_root s @ join_sep (path_parts s))"

definition path_join :: "string \<Rightarrow> string \<Rightarrow> string" where
  "path_join dir p = path_str (posix_join dir p)"

text \<open>\<^verbatim>\<open>__getitem__\<close>, lines 68 to 90.\<close>

definition getitem ::
  "librosa \<Rightarrow> augment_draws \<Rightarrow> AudioEmotionDataset \<Rightarrow> int \<Rightarrow> exn + (real list list \<times> nat)" where
  "getitem lib d self idx =
     (case list_getitem (samples self) idx of
        Inl e \<Rightarrow> Inl e
      | Inr sample \<Rightarrow>
          (case dict_get sample ''path'' of
             None \<Rightarrow> Inl (KeyError ''path'')
           | Some p \<Rightarrow>
               (case dict_get sample ''label'' of
                  None \<Rightarrow> Inl (KeyError ''label'')
                | Some l \<Rightarrow>
                    (case dict_get emotion_to_idx l of
                       None \<Rightarrow> Inl (KeyError l)
                     | Some label \<Rightarrow>
                         (case load_and_preprocess lib self (path_join (data_dir self) p) of
                            Inl e \<Rightarrow> Inl e
                          | Inr spectrogram \<Rightarrow>
                              Inr (if use_augmentation self then augment self d spectrogram
                                   else spectrogram, label))))))"

section \<open>Train and validation split\<close>

text \<open>
  \<^verbatim>\<open>train.py\<close>, lines 236 to 257. Python objects are shared by reference, so the dataset
  lives in a store and a \<^verbatim>\<open>Subset\<close> holds the address of its dataset.
\<close>

record args =
  arg_data_dir :: string
  arg_csv_path :: string
  arg_epochs :: int
  arg_val_split :: real
  arg_n_mels :: int
  arg_time_steps :: int
  arg_sample_rate :: int
  arg_use_augmentation :: bool
  arg_early_stopping_patience :: int

type_synonym ref = nat

type_synonym store = "ref \<Rightarrow> AudioEmotionDataset option"

record Subset =
  dataset :: ref
  indices :: "nat list"

text \<open>
  \<^verbatim>\<open>torch.utils.data.random_split(dataset, [train_size, val_size], generator)\<close>: the
  lengths must add up to the length of the dataset; the subsets take consecutive slices
  \<^verbatim>\<open>indices[offset - length : offset]\<close> of the generator's permutation \<open>randperm\<close>, and
  each keeps the reference to the dataset it was given.
\<close>

definition random_split :: "ref \<Rightarrow> nat \<Rightarrow> int \<Rightarrow> int \<Rightarrow> nat list \<Rightarrow> exn + (Subset \<times> Subset)" where
  "random_split full n train_size val_size randperm =
     (if train_size + val_size \<noteq> int n
      then Inl (ValueError ''Sum of input lengths does not equal the length of the input dataset!'')
      else Inr (\<lparr>dataset = full, indices = py_slice randperm (train_size - train_size) train_size\<rparr>,
                \<lparr>dataset = full,
                  indices = py_slice randperm (train_size + val_size - val_size)
                              (train_size + val_size)\<rparr>))"

text \<open>\<^verbatim>\<open>obj.use_augmentation = v\<close> on the object at address \<open>r\<close>.\<close>

definition set_use_augmentation :: "store \<Rightarrow> ref \<Rightarrow> bool \<Rightarrow> store" where
  "set_use_augmentation st r v =
     (case st r of None \<Rightarrow> st | Some obj \<Rightarrow> st(r \<mapsto> obj\<lparr>use_augmentation := v\<rparr>))"

text \<open>
  The part of \<^verbatim>\<open>main\<close> that builds the dataset and the two splits. The result is the
  store after line 257 together with \<^verbatim>\<open>train_dataset\<close> and \<^verbatim>\<open>val_dataset\<close>.
\<close>

definition main_split ::
  "(string \<Rightarrow> exn + row list) \<Rightarrow> nat list \<Rightarrow> args \<Rightarrow> exn + (store \<times> Subset \<times> Subset)" where
  "main_split read_csv randperm a =
     (case AudioEmotionDataset_init read_csv (arg_csv_path a) (arg_data_dir a) (arg_n_mels a)
             (arg_time_steps a) (arg_sample_rate a) (arg_use_augmentation a) of
        Inl e \<Rightarrow> Inl e
      | Inr obj \<Rightarrow>
          (let full_dataset = 0;
               st = Map.empty(full_dataset \<mapsto> obj);
               val_size = py_int (real (len obj) * arg_val_split a);
               train_size = int (len obj) - val_size
           in case random_split full_dataset (len obj) train_size val_size randperm of
                Inl e \<Rightarrow> Inl e
              | Inr (train_dataset, val_dataset) \<Rightarrow>
                  Inr (set_use_augmentation st (dataset val_dataset) False,
                       train_dataset, val_dataset)))"

text \<open>\<^verbatim>\<open>Subset.__getitem__\<close>: \<^verbatim>\<open>self.dataset[self.indices[idx]]\<close>.\<close>

definition Subset_getitem ::
  "librosa \<Rightarrow> augment_draws \<Rightarrow> store \<Rightarrow> Subset \<Rightarrow> int \<Rightarrow> exn + (real list list \<times> nat)" where
  "Subset_getitem lib d st sub idx =
     (case list_getitem (indices sub) idx of
        Inl e \<Rightarrow> Inl e
      | Inr k \<Rightarrow>
          (case st (dataset sub) of
             None \<Rightarrow> Inl (OtherError ''no such object'')
           | Some obj \<Rightarrow> getitem lib d obj (int k)))"

text \<open>
  What the two loaders of lines 259 and 260 read: item \<open>idx\<close> of the training split and
  of the validation split, after \<^verbatim>\<open>main\<close> has built them.
\<close>

definition train_fetch ::
  "librosa \<Rightarrow> augment_draws \<Rightarrow> (string \<Rightarrow> exn + row list) \<Rightarrow> nat list \<Rightarrow> args \<Rightarrow> int
     \<Rightarrow> exn + (real list list \<times> nat)" where
  "train_fetch lib d read_csv randperm a idx =
     (case main_split read_csv randperm a of
        Inl e \<Rightarrow> Inl e
      | Inr (st, train_dataset, val_dataset) \<Rightarrow> Subset_getitem lib d st train_dataset idx)"

definition val_fetch ::
  "librosa \<Rightarrow> augment_draws \<Rightarrow> (string \<Rightarrow> exn + row list) \<Rightarrow> nat list \<Rightarrow> args \<Rightarrow> int
     \<Rightarrow> exn + (real list list \<times> nat)" where
  "val_fetch lib d read_csv randperm a idx =
     (case main_split read_csv randperm a of
        Inl e \<Rightarrow> Inl e
      | Inr (st, train_dataset, val_dataset) \<Rightarrow> Subset_getitem lib d st val_dataset idx)"

section \<open>Serving classifier\<close>

text \<open>\<^verbatim>\<open>emotion_classifier.py\<close>, lines 16 to 21.\<close>

definition SAMPLE_RATE :: int where "SAMPLE_RATE = 16000"
definition DURATION :: real where "DURATION = 1.0"
definition N_MELS :: int where "N_MELS = 64"
definition N_FFT :: int where "N_FFT = 2048"
definition HOP_LENGTH :: int where "HOP_LENGTH = 512"

text \<open>\<^verbatim>\<open>m.min()\<close> and \<^verbatim>\<open>m.max()\<close> over all entries; both raise on an array without entries.\<close>

definition array_min :: "real list list \<Rightarrow> exn + real" where
  "array_min m =
     (case concat m of
        [] \<Rightarrow> Inl (ValueError ''zero-size array to reduction operation minimum which has no identity'')
      | x # xs \<Rightarrow> Inr (fold min xs x))"

definition array_max :: "real list list \<Rightarrow> exn + real" where
  "array_max m =
     (case concat m of
        [] \<Rightarrow> Inl (ValueError ''zero-size array to reduction operation maximum which has no identity'')
      | x # xs \<Rightarrow> Inr (fold max xs x))"

text \<open>\<^verbatim>\<open>m[np.newaxis, ..., np.newaxis]\<close>: shape \<open>(r, c)\<close> becomes \<open>(1, r, c, 1)\<close>.\<close>

definition add_axes :: "real list list \<Rightarrow> real list list list list" where
  "add_axes m = [map (map (\<lambda>x. [x])) m]"

text \<open>All entries of a four-dimensional array.\<close>

definition entries :: "real list list list list \<Rightarrow> real list" where
  "entries t = concat (concat (concat t))"

text \<open>Lines 82 to 87: the buffer is padded or cut to exactly one second.\<close>

definition fit_duration :: "real list \<Rightarrow> real list" where
  "fit_duration y0 =
     (let target_length = py_int (real_of_int SAMPLE_RATE * DURATION)
      in if int (length y0) < target_length
         then np_pad_end y0 (nat (target_length - int (length y0)))
         else py_slice y0 0 target_length)"

text \<open>
  \<^verbatim>\<open>extract_features\<close>, lines 68 to 110. Every exception inside the \<^verbatim>\<open>try\<close> block, those
  of the library included, ends in \<^verbatim>\<open>return None\<close>.
\<close>

definition extract_features :: "librosa \<Rightarrow> string \<Rightarrow> real list list list list option" where
  "extract_features lib audio_path =
     (case (case librosa_load lib audio_path SAMPLE_RATE (Some DURATION) of
              Inl e \<Rightarrow> Inl e
            | Inr y0 \<Rightarrow>
                (case feature_melspectrogram lib (fit_duration y0) SAMPLE_RATE N_MELS N_FFT
                        HOP_LENGTH None of
                   Inl e \<Rightarrow> Inl e
                 | Inr mel_spec \<Rightarrow>
                     (case power_to_db lib mel_spec of
                        Inl e \<Rightarrow> Inl e
                      | Inr mel_spec_db \<Rightarrow>
                          (case array_min mel_spec_db of
                             Inl e \<Rightarrow> Inl e
                           | Inr lo \<Rightarrow>
                               (case array_max mel_spec_db of
                                  Inl e \<Rightarrow> Inl e
                                | Inr hi \<Rightarrow>
                                    Inr (add_axes
                                           (map (map (\<lambda>x. (x - lo) / (hi - lo + 1 / 10 ^ 8)))
                                              mel_spec_db))))))) of
        Inl e \<Rightarrow> None
      | Inr features \<Rightarrow> Some features)"

text \<open>
  A loaded Keras model is its \<^verbatim>\<open>predict\<close> function. The files next to the classifier are
  given by what reading them yields: \<open>None\<close> when the file does not exist, otherwise the
  loaded value or the exception raised while loading.
\<close>

type_synonym keras_model = "real list list list list \<Rightarrow> exn + real list list"

datatype json_value = JStr string | JNum real

type_synonym json_object = "(string \<times> json_value) list"

record saved_model_files =
  model_file :: "(exn + keras_model) option"
  metadata_file :: "(exn + json_object) option"

record EmotionClassifier =
  model :: "keras_model option"
  metadata :: "json_object option"

text \<open>\<^verbatim>\<open>f"{v:.2%}"\<close>: a number is formatted, a string raises.\<close>

fun format_percent :: "json_value \<Rightarrow> exn + unit" where
  "format_percent (JNum x) = Inr ()"
| "format_percent (JStr s) = Inl (ValueError ''Unknown format code % for object of type str'')"

text \<open>\<^verbatim>\<open>load_model\<close>, lines 49 to 66: any exception inside resets \<^verbatim>\<open>self.model\<close> to \<^verbatim>\<open>None\<close>.\<close>

definition load_model :: "saved_model_files \<Rightarrow> EmotionClassifier \<Rightarrow> EmotionClassifier" where
  "load_model fs self =
     (case model_file fs of
        None \<Rightarrow> self\<lparr>model := None\<rparr>
      | Some (Inl e) \<Rightarrow> self\<lparr>model := None\<rparr>
      | Some (Inr m) \<Rightarrow>
          (let self1 = self\<lparr>model := Some m\<rparr>
           in case metadata_file fs of
                None \<Rightarrow> self1
              | Some (Inl e) \<Rightarrow> self1\<lparr>model := None\<rparr>
              | Some (Inr md) \<Rightarrow>
                  (let self2 = self1\<lparr>metadata := Some md\<rparr>
                   in case format_percent
                             (case dict_get md ''test_accuracy'' of
                                None \<Rightarrow> JStr ''N/A''
                              | Some v \<Rightarrow> v) of
                        Inl e \<Rightarrow> self2\<lparr>model := None\<rparr>
                      | Inr u \<Rightarrow> self2)))"

text \<open>\<^verbatim>\<open>EmotionClassifier.__init__\<close>, lines 28 to 47, with the default model path.\<close>

definition EmotionClassifier_init :: "saved_model_files \<Rightarrow> EmotionClassifier" where
  "EmotionClassifier_init fs =
     (let self = \<lparr>model = None, metadata = None\<rparr>
      in case model_file fs of
           Some f \<Rightarrow> load_model fs self
         | None \<Rightarrow> self)"

text \<open>
  \<^verbatim>\<open>get_classifier\<close>, lines 145 to 153; the first argument is the global \<^verbatim>\<open>_classifier\<close>,
  which is returned updated.
\<close>

definition get_classifier ::
  "EmotionClassifier option \<Rightarrow> saved_model_files \<Rightarrow> EmotionClassifier \<times> EmotionClassifier option" where
  "get_classifier global fs =
     (case global of
        None \<Rightarrow> (let c = EmotionClassifier_init fs in (c, Some c))
      | Some c \<Rightarrow> (c, Some c))"

text \<open>
  The two draws of \<^verbatim>\<open>_stub_classify\<close>: the position that \<^verbatim>\<open>np.random.choice(EMOTIONS)\<close>
  picks and the value of \<^verbatim>\<open>np.random.random()\<close>. NumPy picks a position inside the list
  and draws from the half-open unit interval; \<open>stub_draws_ok\<close> says so.
\<close>

record stub_draws =
  choice_index :: nat
  random_draw :: real

definition stub_draws_ok :: "stub_draws \<Rightarrow> bool" where
  "stub_draws_ok d = (choice_index d < length EMOTIONS \<and> 0 \<le> random_draw d \<and> random_draw d < 1)"

text \<open>\<^verbatim>\<open>_stub_classify\<close>, lines 139 to 143.\<close>

definition stub_classify :: "stub_draws \<Rightarrow> string \<times> real" where
  "stub_classify d =
     (let emotion = EMOTIONS ! choice_index d;
          confidence = 0.6 + random_draw d * 0.3
      in (emotion, confidence))"

text \<open>\<^verbatim>\<open>np.argmax\<close>: the first position of the largest entry.\<close>

fun argmax_from :: "nat \<Rightarrow> real \<Rightarrow> nat \<Rightarrow> real list \<Rightarrow> nat" where
  "argmax_from best_i best i [] = best_i"
| "argmax_from best_i best i (x # xs) =
     (if x > best then argmax_from i x (i + 1) xs else argmax_from best_i best (i + 1) xs)"

definition argmax :: "real list \<Rightarrow> exn + nat" where
  "argmax xs =
     (case xs of
        [] \<Rightarrow> Inl (ValueError ''attempt to get argmax of an empty sequence'')
      | x # rest \<Rightarrow> Inr (argmax_from 0 x 1 rest))"

text \<open>\<^verbatim>\<open>classify\<close>, lines 112 to 137.\<close>

definition classify ::
  "librosa \<Rightarrow> stub_draws \<Rightarrow> EmotionClassifier \<Rightarrow> string \<Rightarrow> exn + (string \<times> real)" where
  "classify lib d self audio_path =
     (case model self of
        None \<Rightarrow> Inr (stub_classify d)
      | Some m \<Rightarrow>
          (case extract_features lib audio_path of
             None \<Rightarrow> Inr (stub_classify d)
           | Some features \<Rightarrow>
               (case m features of
                  Inl e \<Rightarrow> Inl e
                | Inr predictions \<Rightarrow>
                    (case list_getitem predictions 0 of
                       Inl e \<Rightarrow> Inl e
                     | Inr p0 \<Rightarrow>
                         (case argmax p0 of
                            Inl e \<Rightarrow> Inl e
                          | Inr emotion_idx \<Rightarrow>
                              (let confidence = p0 ! emotion_idx
                               in case list_getitem EMOTIONS (int emotion_idx) of
                                    Inl e \<Rightarrow> Inl e
                                  | Inr emotion \<Rightarrow> Inr (emotion, confidence)))))))"

text \<open>Repeated calls on one classifier: call \<open>k\<close> has its own path and its own draws.\<close>

definition classify_calls ::
  "librosa \<Rightarrow> EmotionClassifier \<Rightarrow> (string \<times> stub_draws) list \<Rightarrow> (exn + (string \<times> real)) list" where
  "classify_calls lib self calls = map (\<lambda>(audio_path, d). classify lib d self audio_path) calls"

section \<open>Single-file command line\<close>

text \<open>
  \<^verbatim>\<open>classify_audio.py\<close>. A run of \<^verbatim>\<open>main\<close> yields the JSON object it prints and the exit
  status of the process, or an exception that leaves \<^verbatim>\<open>main\<close>. The diagnostics that the
  classifier prints are left out.
\<close>

definition try_except :: "exn + 'a \<Rightarrow> (exn \<Rightarrow> exn + 'a) \<Rightarrow> exn + 'a" where
  "try_except body handler = (case body of Inl e \<Rightarrow> handler e | Inr x \<Rightarrow> Inr x)"

definition main ::
  "librosa \<Rightarrow> saved_model_files \<Rightarrow> stub_draws \<Rightarrow> string list \<Rightarrow> exn + (json_object \<times> int)" where
  "main lib fs d argv =
     (if length argv < 2
      then Inr ([(''error'', JStr ''Audio path required''), (''emotion'', JStr ''neutral''),
                 (''confidence'', JNum 0.5)], 1)
      else
        (let audio_path = argv ! 1
         in try_except
              (let (classifier, global) = get_classifier None fs
               in case classify lib d classifier audio_path of
                    Inl e \<Rightarrow> Inl e
                  | Inr (emotion, confidence) \<Rightarrow>
                      Inr ([(''emotion'', JStr emotion), (''confidence'', JNum confidence)], 0))
              (\<lambda>e. Inr ([(''error'', JStr (str_exn e)), (''emotion'', JStr ''neutral''),
                          (''confidence'', JNum 0.5)], 1))))"

section \<open>Example data\<close>

text \<open>
  A small library, manifest and dataset on which the hypotheses of the theorems below are
  discharged.
\<close>

definition example_librosa :: librosa where
  "example_librosa =
     \<lparr>librosa_load = (\<lambda>path sr duration.
         if path = ''data/clip.wav''
         then Inr (replicate 100 0 @ [0.5, - 1, 0.25, 0] @ replicate 100 0)
         else Inl (OtherError ''file not found'')),
      util_normalize = (\<lambda>y.
         if y = []
         then Inl (ValueError ''zero-size array to reduction operation maximum which has no identity'')
         else (let peak = fold max (map abs y) 0
               in Inr (if peak = 0 then y else map (\<lambda>x. x / peak) y))),
      feature_melspectrogram = (\<lambda>y sr n n_fft hop fmax.
         if y = []
         then Inl (ValueError ''can not pad an empty signal'')
         else Inr (map (\<lambda>i. replicate (1 + length y div nat hop)
                               (real (i + 1) * sum_list (map (\<lambda>x. x * x) y)))
                     [0..<nat n])),
      power_to_db = (\<lambda>S.
         if concat S = []
         then Inl (ValueError ''zero-size array to reduction operation maximum which has no identity'')
         else Inr (map (map (\<lambda>x. 16 * x - 80)) S))\<rparr>"

definition example_rows :: "row list" where
  "example_rows =
     [[(''path'', ''clip.wav''), (''label'', ''sad'')],
      [(''path'', ''gone.wav''), (''label'', ''happy'')],
      [(''path'', ''clip.wav''), (''label'', ''bored'')]]"

definition example_dataset :: AudioEmotionDataset where
  "example_dataset =
     \<lparr>data_dir = ''data'', n_mels = 2, time_steps = 2, sample_rate = 200,
      use_augmentation = True, samples = example_rows\<rparr>"

definition example_read_csv :: "string \<Rightarrow> exn + row list" where
  "example_read_csv p =
     (if p = ''data/labels.csv'' then Inr example_rows else Inl (OtherError ''file not found''))"

definition neutral_draws :: augment_draws where
  "neutral_draws =
     \<lparr>noise_draw = (\<lambda>i j. 0), gain_draw = 1, time_mask_gate = 0.5, time_mask_width = 1,
      time_mask_start = (\<lambda>high. 0), freq_mask_gate = 0.25, freq_mask_height = 1,
      freq_mask_start = (\<lambda>high. 0)\<rparr>"

definition example_args :: args where
  "example_args =
     \<lparr>arg_data_dir = ''data'', arg_csv_path = ''data/labels.csv'', arg_epochs = 4,
      arg_val_split = 0.4, arg_n_mels = 2, arg_time_steps = 2, arg_sample_rate = 200,
      arg_use_augmentation = True, arg_early_stopping_patience = 2\<rparr>"

definition strong_draws :: augment_draws where
  "strong_draws =
     \<lparr>noise_draw = (\<lambda>i j. 1), gain_draw = 2, time_mask_gate = 0.9, time_mask_width = 1,
      time_mask_start = (\<lambda>high. 0), freq_mask_gate = 0.75, freq_mask_height = 1,
      freq_mask_start = (\<lambda>high. 0)\<rparr>"

definition no_model_files :: saved_model_files where
  "no_model_files = \<lparr>model_file = None, metadata_file = None\<rparr>"

definition example_calls :: "(string \<times> stub_draws) list" where
  "example_calls =
     [(''data/clip.wav'', \<lparr>choice_index = 3, random_draw = 0.5\<rparr>),
      (''data/gone.wav'', \<lparr>choice_index = 0, random_draw = 0\<rparr>),
      (''data/clip.wav'', \<lparr>choice_index = 4, random_draw = 0.96\<rparr>)]"

definition failing_model_files :: saved_model_files where
  "failing_model_files =
     \<lparr>model_file = Some (Inr (\<lambda>features. Inl (ValueError ''incompatible input shape''))),
      metadata_file = None\<rparr>"

section \<open>Properties\<close>

subsection \<open>Emotion classes\<close>

lemma EMOTION_TO_IDX_value:
  "EMOTION_TO_IDX =
     [(''happy'', 0), (''sad'', 1), (''angry'', 2), (''surprised'', 3), (''neutral'', 4)]"
  by (simp add: EMOTION_TO_IDX_def emotion_index_dict_def EMOTION_CLASSES_def enumerate_eq_zip
      upt_rec numeral_eq_Suc)

lemma IDX_TO_EMOTION_value:
  "IDX_TO_EMOTION =
     [(0, ''happy''), (1, ''sad''), (2, ''angry''), (3, ''surprised''), (4, ''neutral'')]"
  by (simp add: IDX_TO_EMOTION_def EMOTION_TO_IDX_value)

lemma emotion_to_idx_value: "emotion_to_idx = EMOTION_TO_IDX"
  by (simp add: emotion_to_idx_def EMOTION_TO_IDX_def emotion_classes_def EMOTION_CLASSES_def)

text \<open>
  C5. Every label of the ordered five-element list is mapped to an index that is mapped
  back to the same label; label to index is a bijection between the five labels and
  \<open>0 .. 4\<close>; the dataset, the training script and the serving classifier hold the same list
  in the same order, so the index that the dataset assigns to a label selects that label in
  the serving classifier's list.
\<close>

theorem label_index_roundtrip:
  "(\<forall>l \<in> set EMOTION_CLASSES.
      \<exists>i. dict_get EMOTION_TO_IDX l = Some i \<and> dict_get IDX_TO_EMOTION i = Some l) \<and>
   length EMOTION_CLASSES = 5 \<and>
   bij_betw (\<lambda>l. the (dict_get EMOTION_TO_IDX l)) (set EMOTION_CLASSES) {0..<5} \<and>
   emotion_classes = EMOTION_CLASSES \<and> emotion_to_idx = EMOTION_TO_IDX \<and>
   EMOTIONS = EMOTION_CLASSES \<and>
   (\<forall>l \<in> set emotion_classes.
      \<exists>i. dict_get emotion_to_idx l = Some i \<and> i < length EMOTIONS \<and> EMOTIONS ! i = l)"
proof -
  have roundtrip: "\<forall>l \<in> set EMOTION_CLASSES.
      \<exists>i. dict_get EMOTION_TO_IDX l = Some i \<and> dict_get IDX_TO_EMOTION i = Some l"
    by (simp add: EMOTION_TO_IDX_value IDX_TO_EMOTION_value dict_get_def EMOTION_CLASSES_def)
  have five: "length EMOTION_CLASSES = 5"
    by (simp add: EMOTION_CLASSES_def)
  have bij: "bij_betw (\<lambda>l. the (dict_get EMOTION_TO_IDX l)) (set EMOTION_CLASSES) {0..<5}"
    unfolding bij_betw_def
    by (simp add: EMOTION_TO_IDX_value dict_get_def EMOTION_CLASSES_def) auto
  have same: "emotion_classes = EMOTION_CLASSES" "EMOTIONS = EMOTION_CLASSES"
    by (simp_all add: emotion_classes_def EMOTION_CLASSES_def EMOTIONS_def)
  have serving: "\<forall>l \<in> set emotion_classes.
      \<exists>i. dict_get emotion_to_idx l = Some i \<and> i < length EMOTIONS \<and> EMOTIONS ! i = l"
    by (simp add: emotion_to_idx_value EMOTION_TO_IDX_value emotion_classes_def dict_get_def
        EMOTIONS_def)
  from roundtrip five bij same serving emotion_to_idx_value show ?thesis
    by blast
qed

theorem label_index_roundtrip_witness:
  "''angry'' \<in> set EMOTION_CLASSES \<and> ''angry'' \<in> set emotion_classes \<and>
   (\<exists>i. dict_get EMOTION_TO_IDX ''angry'' = Some i \<and> dict_get IDX_TO_EMOTION i = Some ''angry'') \<and>
   (\<exists>i. dict_get emotion_to_idx ''angry'' = Some i \<and> EMOTIONS ! i = ''angry'')"
proof -
  have a: "''angry'' \<in> set EMOTION_CLASSES" by (simp add: EMOTION_CLASSES_def)
  have b: "''angry'' \<in> set emotion_classes" by (simp add: emotion_classes_def)
  from a b label_index_roundtrip show ?thesis by blast
qed

subsection \<open>Early stopping\<close>

text \<open>
  C1, as the sources have it. With patience 2 and the validation accuracies
  0.5, 0.5, 0.4, 0.3, the loop stops after the third epoch: the tie of the second epoch
  already counts as a non-improvement, the third epoch brings the counter to 2, and the
  fourth accuracy is never produced. The checkpoint is the one of the first epoch.
\<close>

theorem early_stopping_example_halts_after_third_epoch:
  "run_training 4 2 example_val_accs =
     \<lparr>best_val_acc = 0.5, patience_counter = 2, val_acc_history = [0.5, 0.5, 0.4],
      best_model_epoch = Some 0, epochs_completed = 3, early_stopped = True\<rparr>"
  by (simp add: run_training_def init_train_state_def example_val_accs_def numeral_eq_Suc Let_def)

text \<open>C1, as the specification states it, fails: the run does not complete four epochs.\<close>

theorem early_stopping_example_not_fourth_epoch:
  "epochs_completed (run_training 4 2 example_val_accs) \<noteq> 4"
  by (simp add: run_training_def init_train_state_def example_val_accs_def numeral_eq_Suc Let_def)

subsection \<open>Feature extractor of the dataset\<close>

lemma shape1_map_length: "shape1 m = (case map length m of [] \<Rightarrow> 0 | l # _ \<Rightarrow> l)"
  by (simp add: shape1_def split: list.splits)

lemma has_shape_map_length:
  "has_shape m r c = (length (map length m) = r \<and> list_all (\<lambda>l. l = c) (map length m))"
  by (simp add: has_shape_def list.pred_map comp_def)

lemma shape1_cong: "map length a = map length b \<Longrightarrow> shape1 a = shape1 b"
  by (simp only: shape1_map_length)

lemma has_shape_cong: "map length a = map length b \<Longrightarrow> has_shape a r c = has_shape b r c"
  by (simp only: has_shape_map_length)

lemma has_shape_shape1: "has_shape m r c \<Longrightarrow> m \<noteq> [] \<Longrightarrow> shape1 m = c"
  by (cases m) (simp_all add: has_shape_def shape1_def)

lemma has_shape_concat_nonempty:
  assumes "has_shape m r c" and "0 < r" and "0 < c"
  shows "concat m \<noteq> []"
proof -
  from assms obtain row rest where m: "m = row # rest" by (cases m) (auto simp: has_shape_def)
  with assms have "length row = c" by (simp add: has_shape_def)
  with assms(3) m show ?thesis by auto
qed

lemma length_py_slice_prefix: "0 \<le> t \<Longrightarrow> length (py_slice row 0 t) = min (length row) (nat t)"
  by (simp add: py_slice_def slice_bound_def Let_def)

lemma length_py_slice_centre:
  assumes "0 \<le> a" and "0 \<le> t" and "a + t \<le> int (length xs)"
  shows "length (py_slice xs a (a + t)) = nat t"
proof -
  from assms have lo: "slice_bound (length xs) a = nat a"
    and hi: "slice_bound (length xs) (a + t) = nat a + nat t"
    by (simp_all add: slice_bound_def nat_add_distrib)
  from assms have "nat a + nat t \<le> length xs" by linarith
  then show ?thesis by (simp add: py_slice_def Let_def lo hi)
qed


text \<open>The buffer handed to the library has the target length.\<close>

lemma length_fit_audio:
  assumes "0 \<le> target_length self"
  shows "length (fit_audio self audio0) = nat (target_length self)"
proof -
  define audio1 where "audio1 =
    (if int (length audio0) < py_int (real_of_int (sample_rate self) * 1.0)
     then np_pad_end audio0 (nat (py_int (real_of_int (sample_rate self) * 1.0) - int (length audio0)))
     else audio0)"
  define start where "start = (int (length audio1) - target_length self) div 2"
  have eq: "fit_audio self audio0 =
    (if int (length audio1) > target_length self
     then py_slice audio1 start (start + target_length self)
     else np_pad_end audio1 (nat (target_length self - int (length audio1))))"
    by (simp add: fit_audio_def Let_def audio1_def start_def)
  show ?thesis
  proof (cases "int (length audio1) > target_length self")
    case True
    then have "0 \<le> start" and "start + target_length self \<le> int (length audio1)"
      unfolding start_def by linarith+
    with assms have "length (py_slice audio1 start (start + target_length self)) =
        nat (target_length self)"
      by (intro length_py_slice_centre)
    with True eq show ?thesis by simp
  next
    case False
    then have "length audio1 + nat (target_length self - int (length audio1)) =
        nat (target_length self)"
      by linarith
    with False eq show ?thesis by (simp add: np_pad_end_def)
  qed
qed


lemma has_shape_fit_frames:
  assumes "has_shape m r c" and "0 \<le> time_steps self"
  shows "has_shape (fit_frames self m) r (nat (time_steps self))"
proof (cases "m = []")
  case True
  with assms show ?thesis
    by (simp add: fit_frames_def has_shape_def np_pad_time_def trim_time_def)
next
  case False
  define t where "t = time_steps self"
  from False assms have c: "shape1 m = c" by (simp add: has_shape_shape1)
  from assms(1) have len: "length m = r" and rows: "\<forall>row \<in> set m. length row = c"
    by (simp_all add: has_shape_def list_all_iff)
  have t: "0 \<le> t" using assms(2) by (simp add: t_def)
  have pad: "has_shape (np_pad_time m (nat (t - int c))) r (nat t)" if "int c < t"
  proof -
    from that have "c + nat (t - int c) = nat t" by linarith
    with len rows show ?thesis
      by (simp add: has_shape_def list_all_iff np_pad_time_def np_pad_end_def)
  qed
  have trim: "has_shape (trim_time m t) r (nat t)" if "int c > t"
  proof -
    from that t have "min c (nat t) = nat t" by linarith
    with len rows t show ?thesis
      by (simp add: has_shape_def list_all_iff trim_time_def length_py_slice_prefix)
  qed
  have same: "has_shape m r (nat t)" if "int c = t"
    using that assms(1) by auto
  from pad trim same show ?thesis
    unfolding fit_frames_def c t_def [symmetric]
    by (cases "int c < t"; cases "int c > t") simp_all
qed

text \<open>The contract of the library, one call at a time.\<close>

lemma normalize_returns:
  "librosa_returns lib \<Longrightarrow> y \<noteq> [] \<Longrightarrow>
     \<exists>y'. util_normalize lib y = Inr y' \<and> length y' = length y"
  by (simp add: librosa_returns_def)

lemma melspectrogram_returns:
  "librosa_returns lib \<Longrightarrow> y \<noteq> [] \<Longrightarrow> 0 < sr \<Longrightarrow> 0 < n \<Longrightarrow> 0 < n_fft \<Longrightarrow> 0 < hop \<Longrightarrow>
     \<forall>f. fmax = Some f \<longrightarrow> 0 < f \<Longrightarrow>
     \<exists>S. feature_melspectrogram lib y sr n n_fft hop fmax = Inr S"
  by (simp add: librosa_returns_def)

lemma power_to_db_returns:
  "librosa_returns lib \<Longrightarrow> concat S \<noteq> [] \<Longrightarrow> \<exists>db. power_to_db lib S = Inr db"
  by (simp add: librosa_returns_def)

lemma melspectrogram_shape:
  "librosa_shapes lib \<Longrightarrow> feature_melspectrogram lib y sr n n_fft hop fmax = Inr S \<Longrightarrow>
     has_shape S (nat n) (shape1 S)"
  by (simp add: librosa_shapes_def)

lemma power_to_db_shape:
  "librosa_shapes lib \<Longrightarrow> power_to_db lib S = Inr db \<Longrightarrow> map length db = map length S"
  by (simp add: librosa_shapes_def)

lemma melspectrogram_frames:
  "librosa_frames lib \<Longrightarrow> 0 < n \<Longrightarrow> 0 < hop \<Longrightarrow>
     feature_melspectrogram lib y sr n n_fft hop fmax = Inr S \<Longrightarrow>
     shape1 S = 1 + length y div nat hop"
  by (simp add: librosa_frames_def)

text \<open>
  The run of the three library calls after the decoding step, for whatever buffer that
  step hands on, under a configuration that leaves a buffer to transform.
\<close>

lemma load_and_preprocess_returns:
  assumes "librosa_contract lib" and "0 < n_mels self" and "0 \<le> time_steps self"
    and "2 \<le> sample_rate self" and "0 < target_length self"
    and "(case librosa_load lib audio_path (sample_rate self) None of
            Inr decoded \<Rightarrow> Inr decoded
          | Inl e \<Rightarrow> np_zeros (sample_rate self * 2)) = Inr audio0"
  shows "\<exists>audio S db.
           util_normalize lib (fit_audio self audio0) = Inr audio \<and>
           feature_melspectrogram lib audio (sample_rate self) (n_mels self) 2048 512
             (Some (sample_rate self div 2)) = Inr S \<and>
           power_to_db lib S = Inr db \<and>
           load_and_preprocess lib self audio_path = Inr (fit_frames self db) \<and>
           has_shape (fit_frames self db) (nat (n_mels self)) (nat (time_steps self))"
proof -
  from assms(1) have returns: "librosa_returns lib" and shapes: "librosa_shapes lib"
    and frames: "librosa_frames lib"
    by (simp_all add: librosa_contract_def)
  from assms(5) have "length (fit_audio self audio0) = nat (target_length self)"
    by (intro length_fit_audio) simp
  with assms(5) have nonempty: "fit_audio self audio0 \<noteq> []" by auto
  from normalize_returns [OF returns nonempty] obtain audio where
    n: "util_normalize lib (fit_audio self audio0) = Inr audio"
    and len: "length audio = length (fit_audio self audio0)"
    by blast
  from nonempty len have audio: "audio \<noteq> []" by auto
  from assms(4) have fmax: "\<forall>f. Some (sample_rate self div 2) = Some f \<longrightarrow> 0 < f"
    by auto
  from assms(4) have rate: "0 < sample_rate self" by simp
  have "\<exists>S. feature_melspectrogram lib audio (sample_rate self) (n_mels self) 2048 512
             (Some (sample_rate self div 2)) = Inr S"
    using returns audio rate assms(2) _ _ fmax by (rule melspectrogram_returns) simp_all
  then obtain S where S: "feature_melspectrogram lib audio (sample_rate self) (n_mels self)
             2048 512 (Some (sample_rate self div 2)) = Inr S"
    by blast
  from shapes S have sh: "has_shape S (nat (n_mels self)) (shape1 S)"
    by (rule melspectrogram_shape)
  have "shape1 S = 1 + length audio div nat 512"
    using frames assms(2) _ S by (rule melspectrogram_frames) simp
  then have "0 < shape1 S" by simp
  with assms(2) have "concat S \<noteq> []"
    by (intro has_shape_concat_nonempty [OF sh]) simp_all
  with returns obtain db where db: "power_to_db lib S = Inr db"
    using power_to_db_returns by blast
  with shapes have "map length db = map length S"
    by (rule power_to_db_shape)
  with sh have "has_shape db (nat (n_mels self)) (shape1 db)"
    using has_shape_cong [of db S] shape1_cong [of db S] by simp
  then have "has_shape (fit_frames self db) (nat (n_mels self)) (nat (time_steps self))"
    using assms(3) by (rule has_shape_fit_frames)
  moreover have "load_and_preprocess lib self audio_path = Inr (fit_frames self db)"
    by (simp add: load_and_preprocess_def assms(6) n S db)
  ultimately show ?thesis using n S db by blast
qed

text \<open>
  C4. Whatever buffer the decoder returns, \<^verbatim>\<open>_load_and_preprocess\<close> returns an array with
  exactly \<open>n_mels\<close> rows of exactly \<open>time_steps\<close> entries: the shape depends on the
  configured numbers only. The library is assumed to keep its contract, and the
  configuration to leave a buffer to transform: at least one mel band, a sample rate of at
  least 2 and a target length of at least one sample.
\<close>

theorem feature_shape_fixed:
  assumes "librosa_contract lib" and "0 < n_mels self" and "0 \<le> time_steps self"
    and "2 \<le> sample_rate self" and "0 < target_length self"
    and "librosa_load lib audio_path (sample_rate self) None = Inr audio"
  shows "\<exists>m. load_and_preprocess lib self audio_path = Inr m \<and>
             int (length m) = n_mels self \<and>
             (\<forall>row \<in> set m. int (length row) = time_steps self)"
proof -
  have "(case librosa_load lib audio_path (sample_rate self) None of
            Inr decoded \<Rightarrow> Inr decoded
          | Inl e \<Rightarrow> np_zeros (sample_rate self * 2)) = Inr audio"
    by (simp add: assms(6))
  with assms(1-5) obtain db where
    "load_and_preprocess lib self audio_path = Inr (fit_frames self db)"
    and "has_shape (fit_frames self db) (nat (n_mels self)) (nat (time_steps self))"
    using load_and_preprocess_returns by blast
  with assms(2,3) show ?thesis
    by (simp add: has_shape_def list_all_iff)
qed

lemma example_librosa_contract: "librosa_contract example_librosa"
proof -
  have "librosa_returns example_librosa"
    by (simp add: librosa_returns_def example_librosa_def Let_def)
  moreover have "librosa_shapes example_librosa"
    by (auto simp: librosa_shapes_def example_librosa_def has_shape_def shape1_def list_all_iff
        comp_def upt_conv_Cons split: list.splits if_splits)
  moreover have "librosa_frames example_librosa"
    by (auto simp: librosa_frames_def example_librosa_def shape1_def upt_conv_Cons
        split: list.splits if_splits)
  ultimately show ?thesis by (simp add: librosa_contract_def)
qed

lemma example_target_length: "target_length example_dataset = 4"
  by (simp add: target_length_def example_dataset_def py_int_def)

lemma example_decodes:
  "librosa_load example_librosa ''data/clip.wav'' (sample_rate example_dataset) None =
     Inr (replicate 100 0 @ [0.5, - 1, 0.25, 0] @ replicate 100 0)"
  by (simp add: example_librosa_def)

theorem feature_shape_fixed_witness:
  "librosa_contract example_librosa \<and> 0 < n_mels example_dataset \<and>
   0 \<le> time_steps example_dataset \<and> 2 \<le> sample_rate example_dataset \<and>
   0 < target_length example_dataset \<and>
   librosa_load example_librosa ''data/clip.wav'' (sample_rate example_dataset) None =
     Inr (replicate 100 0 @ [0.5, - 1, 0.25, 0] @ replicate 100 0) \<and>
   (\<exists>m. load_and_preprocess example_librosa example_dataset ''data/clip.wav'' = Inr m \<and>
        int (length m) = 2 \<and> (\<forall>row \<in> set m. int (length row) = 2))"
proof -
  have a: "0 < n_mels example_dataset" and b: "0 \<le> time_steps example_dataset"
    and r: "2 \<le> sample_rate example_dataset"
    by (simp_all add: example_dataset_def)
  have t: "0 < target_length example_dataset"
    by (simp add: example_target_length)
  have c: "n_mels example_dataset = 2" and d: "time_steps example_dataset = 2"
    by (simp_all add: example_dataset_def)
  from feature_shape_fixed [OF example_librosa_contract a b r t example_decodes]
    example_librosa_contract a b r t example_decodes
  show ?thesis unfolding c d by blast
qed

text \<open>
  The values on the example, and what a configuration without a buffer does: with
  \<open>time_steps = 0\<close> the buffer is cut to nothing and the normalisation raises, and so it
  does with \<open>sample_rate = 0\<close> after a failed decoding.
\<close>

lemma example_training_features:
  "load_and_preprocess example_librosa example_dataset ''data/clip.wav'' =
     Inr [[- 59, 0], [- 38, 0]]"
  by code_simp

lemma example_silence_features:
  "load_and_preprocess example_librosa example_dataset ''data/gone.wav'' =
     Inr [[- 80, 0], [- 80, 0]]"
  by code_simp

lemma empty_buffer_raises:
  "load_and_preprocess example_librosa (example_dataset\<lparr>time_steps := 0\<rparr>) ''data/clip.wav'' =
     Inl (ValueError ''zero-size array to reduction operation maximum which has no identity'')"
  by code_simp

lemma zero_rate_silence_raises:
  "load_and_preprocess example_librosa (example_dataset\<lparr>sample_rate := 0\<rparr>) ''data/gone.wav'' =
     Inl (ValueError ''zero-size array to reduction operation maximum which has no identity'')"
  by code_simp







subsection \<open>Augmentation\<close>

lemma map_length_add_noise: "map length (add_noise noise m) = map length m"
  by (rule nth_equalityI) (simp_all add: add_noise_def nth_enumerate_eq)

lemma length_zero_slice: "length (zero_slice a b row) = length row"
  by (simp add: zero_slice_def Let_def)

lemma map_length_zero_columns: "map length (zero_columns a b m) = map length m"
  by (simp add: zero_columns_def length_zero_slice comp_def)

lemma map_length_zero_rows: "map length (zero_rows a b m) = map length m"
  by (rule nth_equalityI) (simp_all add: zero_rows_def Let_def nth_enumerate_eq)

lemma map_length_gain: "map length (map (map f) m) = map length m"
  by (simp add: comp_def)

lemma add_zero_noise: "add_noise (\<lambda>i j. 0) m = m"
proof (rule nth_equalityI)
  show "length (add_noise (\<lambda>i j. 0) m) = length m"
    by (simp add: add_noise_def)
next
  fix i assume "i < length (add_noise (\<lambda>i j. 0) m)"
  then have i: "i < length m" by (simp add: add_noise_def)
  have "map (\<lambda>(j, x). x + 0) (enumerate 0 (m ! i)) = m ! i"
    by (rule nth_equalityI) (simp_all add: nth_enumerate_eq)
  with i show "add_noise (\<lambda>i j. 0) m ! i = m ! i"
    by (simp add: add_noise_def nth_enumerate_eq)
qed

lemma unit_gain: "map (map (\<lambda>x. x * (1::real))) m = m"
  by (simp add: map_idI)

text \<open>
  C7. \<^verbatim>\<open>_augment\<close> returns an array with as many rows as its input and rows of the same
  lengths, whatever the draws; with zero noise, gain 1 and neither masking gate taken it
  returns its input.
\<close>

theorem augment_shape_and_identity:
  "map length (augment self d spectrogram) = map length spectrogram \<and>
   ((\<forall>i j. noise_draw d i j = 0) \<and> gain_draw d = 1 \<and>
    \<not> time_mask_gate d > 0.5 \<and> \<not> freq_mask_gate d > 0.5 \<longrightarrow>
    augment self d spectrogram = spectrogram)"
proof
  show "map length (augment self d spectrogram) = map length spectrogram"
    by (simp add: augment_def Let_def map_length_zero_rows map_length_zero_columns
        map_length_add_noise comp_def)
next
  show "(\<forall>i j. noise_draw d i j = 0) \<and> gain_draw d = 1 \<and>
    \<not> time_mask_gate d > 0.5 \<and> \<not> freq_mask_gate d > 0.5 \<longrightarrow>
    augment self d spectrogram = spectrogram"
  proof
    assume h: "(\<forall>i j. noise_draw d i j = 0) \<and> gain_draw d = 1 \<and>
      \<not> time_mask_gate d > 0.5 \<and> \<not> freq_mask_gate d > 0.5"
    then have "noise_draw d = (\<lambda>i j. 0)" by (intro ext) simp
    with h show "augment self d spectrogram = spectrogram"
      by (simp add: augment_def add_zero_noise unit_gain)
  qed
qed

theorem augment_shape_and_identity_witness:
  "(\<forall>i j. noise_draw neutral_draws i j = 0) \<and> gain_draw neutral_draws = 1 \<and>
   \<not> time_mask_gate neutral_draws > 0.5 \<and> \<not> freq_mask_gate neutral_draws > 0.5 \<and>
   augment example_dataset neutral_draws [[- 80, - 12.5, 0], [- 3, - 40, - 7]] =
     [[- 80, - 12.5, 0], [- 3, - 40, - 7]]"
proof -
  have h: "(\<forall>i j. noise_draw neutral_draws i j = 0) \<and> gain_draw neutral_draws = 1 \<and>
   \<not> time_mask_gate neutral_draws > 0.5 \<and> \<not> freq_mask_gate neutral_draws > 0.5"
    by (simp add: neutral_draws_def)
  with augment_shape_and_identity [of example_dataset neutral_draws "[[- 80, - 12.5, 0], [- 3, - 40, - 7]]"]
  show ?thesis by blast
qed

subsection \<open>Construction and unknown labels\<close>

lemma count_label_total:
  "\<forall>s \<in> set ss. dict_get s ''label'' \<noteq> None \<Longrightarrow> \<exists>c. count_label ss emotion = Inr c"
  by (induction ss) auto

lemma class_distribution_total:
  assumes "\<forall>s \<in> set ss. dict_get s ''label'' \<noteq> None"
  shows "\<exists>cs. class_distribution ss emotions = Inr cs"
proof (induction emotions)
  case Nil
  show ?case by simp
next
  case (Cons emotion emotions)
  from assms obtain c where "count_label ss emotion = Inr c"
    using count_label_total by blast
  with Cons show ?case by auto
qed

lemma init_total:
  assumes "read_csv csv_path = Inr rows"
    and "\<forall>s \<in> set rows. dict_get s ''label'' \<noteq> None"
  shows "AudioEmotionDataset_init read_csv csv_path dir mels steps rate aug =
           Inr \<lparr>data_dir = dir, n_mels = mels, time_steps = steps, sample_rate = rate,
                use_augmentation = aug, samples = rows\<rparr>"
proof -
  from assms(2) obtain cs where "class_distribution rows emotion_classes = Inr cs"
    using class_distribution_total by blast
  with assms(1) show ?thesis
    by (simp add: AudioEmotionDataset_init_def)
qed

lemma unknown_label_no_index: "l \<notin> set emotion_classes \<Longrightarrow> dict_get emotion_to_idx l = None"
  by (simp add: emotion_to_idx_value EMOTION_TO_IDX_value emotion_classes_def dict_get_def)

text \<open>
  C3, as the sources have it. Construction does not look at the label strings: for every
  manifest whose rows have a label column it returns the dataset, whatever the labels are.
  A label outside the five classes raises \<^verbatim>\<open>KeyError\<close> later, when a row that carries it
  is fetched.
\<close>

theorem unknown_label_raises_at_fetch:
  assumes "read_csv csv_path = Inr rows"
    and "\<forall>s \<in> set rows. dict_get s ''label'' \<noteq> None"
  shows "\<exists>self. AudioEmotionDataset_init read_csv csv_path dir mels steps rate aug = Inr self \<and>
           samples self = rows \<and>
           (\<forall>idx sample p l.
              list_getitem rows idx = Inr sample \<and> dict_get sample ''path'' = Some p \<and>
              dict_get sample ''label'' = Some l \<and> l \<notin> set emotion_classes \<longrightarrow>
              getitem lib d self idx = Inl (KeyError l))"
proof -
  let ?self = "\<lparr>data_dir = dir, n_mels = mels, time_steps = steps, sample_rate = rate,
                use_augmentation = aug, samples = rows\<rparr>"
  have "AudioEmotionDataset_init read_csv csv_path dir mels steps rate aug = Inr ?self"
    using assms by (rule init_total)
  moreover have "samples ?self = rows" by simp
  moreover have "getitem lib d ?self idx = Inl (KeyError l)"
    if "list_getitem rows idx = Inr sample" "dict_get sample ''path'' = Some p"
       "dict_get sample ''label'' = Some l" "l \<notin> set emotion_classes"
    for idx sample p l
    using that by (simp add: getitem_def unknown_label_no_index)
  ultimately show ?thesis by blast
qed

lemma example_rows_labelled: "\<forall>s \<in> set example_rows. dict_get s ''label'' \<noteq> None"
  by (simp add: example_rows_def dict_get_def)

lemma example_read: "example_read_csv ''data/labels.csv'' = Inr example_rows"
  by (simp add: example_read_csv_def)

theorem unknown_label_raises_at_fetch_witness:
  "example_read_csv ''data/labels.csv'' = Inr example_rows \<and>
   list_all (\<lambda>s. dict_get s ''label'' \<noteq> None) example_rows \<and>
   list_getitem example_rows 2 = Inr [(''path'', ''clip.wav''), (''label'', ''bored'')] \<and>
   dict_get [(''path'', ''clip.wav''), (''label'', ''bored'')] ''path'' = Some ''clip.wav'' \<and>
   dict_get [(''path'', ''clip.wav''), (''label'', ''bored'')] ''label'' = Some ''bored'' \<and>
   ''bored'' \<notin> set emotion_classes \<and>
   (\<exists>self. AudioEmotionDataset_init example_read_csv ''data/labels.csv'' ''data'' 2 2 200 True =
             Inr self \<and>
           getitem example_librosa neutral_draws self 2 = Inl (KeyError ''bored''))"
proof -
  have r: "list_getitem example_rows 2 = Inr [(''path'', ''clip.wav''), (''label'', ''bored'')]"
    by (simp add: example_rows_def list_getitem_def)
  have p: "dict_get [(''path'', ''clip.wav''), (''label'', ''bored'')] ''path'' = Some ''clip.wav''"
    and l: "dict_get [(''path'', ''clip.wav''), (''label'', ''bored'')] ''label'' = Some ''bored''"
    by (simp_all add: dict_get_def)
  have u: "''bored'' \<notin> set emotion_classes"
    by (simp add: emotion_classes_def)
  from unknown_label_raises_at_fetch
         [where read_csv = example_read_csv and csv_path = "''data/labels.csv''"
            and dir = "''data''" and mels = 2 and steps = 2 and rate = 200 and aug = True
            and lib = example_librosa and d = neutral_draws,
          OF example_read example_rows_labelled]
    example_read example_rows_labelled r p l u
  show ?thesis unfolding list_all_iff by blast
qed

text \<open>
  C3, as the specification states it, fails: a manifest with the label \<^verbatim>\<open>bored\<close> is
  accepted by the constructor.
\<close>

theorem unknown_label_construction_succeeds:
  "[(''path'', ''clip.wav''), (''label'', ''bored'')] \<in> set example_rows \<and>
   ''bored'' \<notin> set emotion_classes \<and>
   AudioEmotionDataset_init example_read_csv ''data/labels.csv'' ''data'' 2 2 200 True =
     Inr example_dataset"
  by (simp add: init_total [where read_csv = example_read_csv, OF example_read example_rows_labelled]
      example_dataset_def emotion_classes_def)
     (simp add: example_rows_def)


subsection \<open>Split\<close>

lemma main_split_store:
  assumes "main_split read_csv randperm a = Inr (st, train_dataset, val_dataset)"
  shows "dataset train_dataset = dataset val_dataset \<and>
         (\<exists>obj. st (dataset train_dataset) = Some obj \<and> \<not> use_augmentation obj)"
  using assms
  by (auto simp: main_split_def random_split_def set_use_augmentation_def Let_def
      split: sum.splits if_splits)

lemma getitem_without_augmentation:
  "\<not> use_augmentation obj \<Longrightarrow> getitem lib d obj k = getitem lib d' obj k"
  by (simp add: getitem_def split: sum.splits option.splits)

lemma train_fetch_ignores_draws:
  "train_fetch lib d read_csv randperm a idx = train_fetch lib d' read_csv randperm a idx"
proof (cases "main_split read_csv randperm a")
  case (Inl e)
  then show ?thesis by (simp add: train_fetch_def)
next
  case (Inr r)
  obtain st train_dataset val_dataset where r: "r = (st, train_dataset, val_dataset)"
    by (cases r) auto
  from Inr r main_split_store obtain obj where
    "st (dataset train_dataset) = Some obj" "\<not> use_augmentation obj" by blast
  with Inr r show ?thesis
    by (auto simp: train_fetch_def Subset_getitem_def split: sum.splits
        intro: getitem_without_augmentation)
qed

lemma val_fetch_ignores_draws:
  "val_fetch lib d read_csv randperm a idx = val_fetch lib d' read_csv randperm a idx"
proof (cases "main_split read_csv randperm a")
  case (Inl e)
  then show ?thesis by (simp add: val_fetch_def)
next
  case (Inr r)
  obtain st train_dataset val_dataset where r: "r = (st, train_dataset, val_dataset)"
    by (cases r) auto
  from Inr r main_split_store obtain obj where
    "st (dataset val_dataset) = Some obj" "\<not> use_augmentation obj" by metis
  with Inr r show ?thesis
    by (auto simp: val_fetch_def Subset_getitem_def split: sum.splits
        intro: getitem_without_augmentation)
qed

text \<open>
  C2. The training script requests augmentation, yet item 1 of the training split comes
  back without it: both splits hold the same dataset object, and line 257 clears the flag
  on that object. The draws \<open>strong_draws\<close> would change the spectrogram, as fetching the
  same row from a dataset whose flag is set shows.
\<close>

theorem train_split_fetch_not_augmented:
  "arg_use_augmentation example_args \<and>
   train_fetch example_librosa strong_draws example_read_csv [2, 0, 1] example_args 1 =
     Inr ([[- 59, 0], [- 38, 0]], 1) \<and>
   use_augmentation example_dataset \<and>
   getitem example_librosa strong_draws example_dataset 0 = Inr ([[0, 0], [0, 2]], 1)"
proof -
  have "arg_use_augmentation example_args"
    by (simp add: example_args_def)
  moreover have "train_fetch example_librosa strong_draws example_read_csv [2, 0, 1] example_args 1 =
     Inr ([[- 59, 0], [- 38, 0]], 1)"
    by code_simp
  moreover have "use_augmentation example_dataset"
    by (simp add: example_dataset_def)
  moreover have "getitem example_librosa strong_draws example_dataset 0 =
     Inr ([[0, 0], [0, 2]], 1)"
    by code_simp
  ultimately show ?thesis by blast
qed

subsection \<open>Fallback of the serving classifier\<close>

lemma EMOTIONS_set:
  "set EMOTIONS = {''happy'', ''sad'', ''angry'', ''surprised'', ''neutral''}"
  by (simp add: EMOTIONS_def)

lemma stub_classify_range:
  assumes "stub_draws_ok d"
  shows "fst (stub_classify d) \<in> {''happy'', ''sad'', ''angry'', ''surprised'', ''neutral''} \<and>
         0.6 \<le> snd (stub_classify d) \<and> snd (stub_classify d) \<le> 0.9"
proof -
  from assms have k: "choice_index d < length EMOTIONS"
    and r: "0 \<le> random_draw d" "random_draw d < 1"
    by (simp_all add: stub_draws_ok_def)
  from k have "EMOTIONS ! choice_index d \<in> set EMOTIONS" by (rule nth_mem)
  then have "fst (stub_classify d) \<in> {''happy'', ''sad'', ''angry'', ''surprised'', ''neutral''}"
    by (simp add: stub_classify_def EMOTIONS_set)
  moreover from r have "0.6 \<le> snd (stub_classify d)" "snd (stub_classify d) \<le> 0.9"
    by (simp_all add: stub_classify_def)
  ultimately show ?thesis by blast
qed

text \<open>
  C8. With no model loaded, every call of \<^verbatim>\<open>classify\<close> in a sequence of calls returns (it
  does not raise) one of the five labels and a confidence between 0.6 and 0.9, whatever the
  audio path. NumPy's draws are assumed to be what NumPy documents: a position inside the
  list and a number in the half-open unit interval.
\<close>

theorem fallback_label_and_confidence:
  assumes "model self = None"
    and "\<forall>(audio_path, d) \<in> set calls. stub_draws_ok d"
  shows "length (classify_calls lib self calls) = length calls \<and>
         (\<forall>r \<in> set (classify_calls lib self calls).
            \<exists>emotion confidence.
              r = Inr (emotion, confidence) \<and>
              emotion \<in> {''happy'', ''sad'', ''angry'', ''surprised'', ''neutral''} \<and>
              0.6 \<le> confidence \<and> confidence \<le> 0.9)"
proof
  show "length (classify_calls lib self calls) = length calls"
    by (simp add: classify_calls_def)
next
  show "\<forall>r \<in> set (classify_calls lib self calls).
            \<exists>emotion confidence.
              r = Inr (emotion, confidence) \<and>
              emotion \<in> {''happy'', ''sad'', ''angry'', ''surprised'', ''neutral''} \<and>
              0.6 \<le> confidence \<and> confidence \<le> 0.9"
  proof
    fix r assume "r \<in> set (classify_calls lib self calls)"
    then obtain audio_path d where c: "(audio_path, d) \<in> set calls"
      and r: "r = classify lib d self audio_path"
      by (auto simp: classify_calls_def)
    from assms(2) c have "stub_draws_ok d" by blast
    then have "fst (stub_classify d) \<in> {''happy'', ''sad'', ''angry'', ''surprised'', ''neutral''} \<and>
         0.6 \<le> snd (stub_classify d) \<and> snd (stub_classify d) \<le> 0.9"
      by (rule stub_classify_range)
    moreover from r assms(1) have "r = Inr (fst (stub_classify d), snd (stub_classify d))"
      by (simp add: classify_def)
    ultimately show "\<exists>emotion confidence.
              r = Inr (emotion, confidence) \<and>
              emotion \<in> {''happy'', ''sad'', ''angry'', ''surprised'', ''neutral''} \<and>
              0.6 \<le> confidence \<and> confidence \<le> 0.9"
      by blast
  qed
qed

lemma no_model_loaded: "model (EmotionClassifier_init no_model_files) = None"
  by (simp add: EmotionClassifier_init_def no_model_files_def)

lemma example_calls_ok: "\<forall>(audio_path, d) \<in> set example_calls. stub_draws_ok d"
  by (simp add: example_calls_def stub_draws_ok_def EMOTIONS_def)

theorem fallback_label_and_confidence_witness:
  "model (EmotionClassifier_init no_model_files) = None \<and>
   list_all (\<lambda>(audio_path, d). stub_draws_ok d) example_calls \<and>
   length (classify_calls example_librosa (EmotionClassifier_init no_model_files) example_calls) = 3 \<and>
   list_all
     (\<lambda>r. \<exists>emotion confidence.
            r = Inr (emotion, confidence) \<and>
            emotion \<in> {''happy'', ''sad'', ''angry'', ''surprised'', ''neutral''} \<and>
            0.6 \<le> confidence \<and> confidence \<le> 0.9)
     (classify_calls example_librosa (EmotionClassifier_init no_model_files) example_calls)"
proof -
  have n: "length example_calls = 3" by (simp add: example_calls_def)
  from fallback_label_and_confidence [OF no_model_loaded example_calls_ok, of example_librosa]
    no_model_loaded example_calls_ok
  show ?thesis unfolding list_all_iff n by blast
qed

subsection \<open>Normalisation in the serving classifier\<close>

lemma array_min_le:
  assumes "array_min m = Inr lo" and "x \<in> set (concat m)"
  shows "lo \<le> x"
proof -
  from assms(1) obtain y ys where c: "concat m = y # ys" and lo: "lo = fold min ys y"
    by (auto simp: array_min_def split: list.splits)
  have "fold min ys y = Min (set (y # ys))" by (rule Min.set_eq_fold [symmetric])
  moreover from c assms(2) have "Min (set (y # ys)) \<le> x" by (intro Min_le) simp_all
  ultimately show ?thesis using lo by simp
qed

lemma array_max_ge:
  assumes "array_max m = Inr hi" and "x \<in> set (concat m)"
  shows "x \<le> hi"
proof -
  from assms(1) obtain y ys where c: "concat m = y # ys" and hi: "hi = fold max ys y"
    by (auto simp: array_max_def split: list.splits)
  have "fold max ys y = Max (set (y # ys))" by (rule Max.set_eq_fold [symmetric])
  moreover from c assms(2) have "x \<le> Max (set (y # ys))" by (intro Max_ge) simp_all
  ultimately show ?thesis using hi by simp
qed

lemma array_min_total: "concat m \<noteq> [] \<Longrightarrow> \<exists>lo. array_min m = Inr lo"
  by (simp add: array_min_def split: list.splits)

lemma array_max_total: "concat m \<noteq> [] \<Longrightarrow> \<exists>hi. array_max m = Inr hi"
  by (simp add: array_max_def split: list.splits)

lemma entries_add_axes: "entries (add_axes m) = concat m"
proof -
  have row: "concat (map (\<lambda>x. [x]) r) = r" for r :: "real list"
    by (induction r) simp_all
  have "concat (concat (map (map (\<lambda>x. [x])) m)) = concat m"
    by (induction m) (simp_all add: row)
  then show ?thesis by (simp add: entries_def add_axes_def)
qed

lemma set_concat_map_map: "set (concat (map (map f) m)) = f ` set (concat m)"
  by (induction m) auto

lemma normalised_bounds:
  fixes x lo hi :: real
  assumes "lo \<le> x" and "x \<le> hi"
  shows "0 \<le> (x - lo) / (hi - lo + 1 / 10 ^ 8) \<and> (x - lo) / (hi - lo + 1 / 10 ^ 8) \<le> 1"
proof -
  have pos: "0 < hi - lo + 1 / 10 ^ 8" using assms by simp
  have "x - lo \<le> hi - lo + 1 / 10 ^ 8" using assms by simp
  with pos have "(x - lo) / (hi - lo + 1 / 10 ^ 8) \<le> 1" by (simp add: divide_le_eq)
  moreover from pos assms have "0 \<le> (x - lo) / (hi - lo + 1 / 10 ^ 8)" by simp
  ultimately show ?thesis by blast
qed

text \<open>The result of the serving extractor when the file decodes.\<close>

lemma length_fit_duration: "length (fit_duration y) = 16000"
proof -
  have t: "py_int (real_of_int SAMPLE_RATE * DURATION) = 16000"
    by (simp add: SAMPLE_RATE_def DURATION_def py_int_def)
  show ?thesis
  proof (cases "int (length y) < 16000")
    case True
    then have "length y + nat (16000 - int (length y)) = 16000" by linarith
    with True show ?thesis by (simp add: fit_duration_def t np_pad_end_def)
  next
    case False
    then have "min (length y) 16000 = 16000" by linarith
    with False show ?thesis by (simp add: fit_duration_def t length_py_slice_prefix)
  qed
qed

lemma extract_features_result:
  assumes "librosa_contract lib"
    and "librosa_load lib audio_path SAMPLE_RATE (Some DURATION) = Inr y"
  shows "\<exists>S db lo hi.
           feature_melspectrogram lib (fit_duration y) SAMPLE_RATE N_MELS N_FFT HOP_LENGTH None =
             Inr S \<and>
           power_to_db lib S = Inr db \<and>
           array_min db = Inr lo \<and> array_max db = Inr hi \<and>
           extract_features lib audio_path =
             Some (add_axes (map (map (\<lambda>x. (x - lo) / (hi - lo + 1 / 10 ^ 8))) db))"
proof -
  from assms(1) have returns: "librosa_returns lib" and shapes: "librosa_shapes lib"
    and frames: "librosa_frames lib"
    by (simp_all add: librosa_contract_def)
  have pos: "0 < SAMPLE_RATE" "0 < N_MELS" "0 < N_FFT" "0 < HOP_LENGTH"
    by (simp_all add: SAMPLE_RATE_def N_MELS_def N_FFT_def HOP_LENGTH_def)
  have y1: "fit_duration y \<noteq> []"
    using length_fit_duration [of y] by auto
  have "\<exists>S. feature_melspectrogram lib (fit_duration y) SAMPLE_RATE N_MELS N_FFT HOP_LENGTH None =
          Inr S"
    using returns y1 pos by (rule melspectrogram_returns) simp
  then obtain S where S: "feature_melspectrogram lib (fit_duration y) SAMPLE_RATE N_MELS N_FFT
      HOP_LENGTH None = Inr S"
    by blast
  from shapes S have sh: "has_shape S (nat N_MELS) (shape1 S)"
    by (rule melspectrogram_shape)
  have "shape1 S = 1 + length (fit_duration y) div nat HOP_LENGTH"
    using frames pos(2) pos(4) S by (rule melspectrogram_frames)
  then have "0 < shape1 S" by simp
  with pos(2) have "concat S \<noteq> []"
    by (intro has_shape_concat_nonempty [OF sh]) simp_all
  with returns obtain db where db: "power_to_db lib S = Inr db"
    using power_to_db_returns by blast
  with shapes have "map length db = map length S"
    by (rule power_to_db_shape)
  with sh have shape_db: "has_shape db (nat N_MELS) (shape1 S)"
    using has_shape_cong [of db S] by simp
  from pos(2) \<open>0 < shape1 S\<close> have "concat db \<noteq> []"
    by (intro has_shape_concat_nonempty [OF shape_db]) simp_all
  then obtain lo hi where lo: "array_min db = Inr lo" and hi: "array_max db = Inr hi"
    using array_min_total array_max_total by blast
  have "extract_features lib audio_path =
             Some (add_axes (map (map (\<lambda>x. (x - lo) / (hi - lo + 1 / 10 ^ 8))) db))"
    by (simp add: extract_features_def assms(2) S db lo hi)
  with S db lo hi show ?thesis by blast
qed

lemma fit_frames_keeps_entries:
  assumes "i < length db" and "j < length (db ! i)" and "int j < time_steps self"
  shows "fit_frames self db ! i ! j = db ! i ! j"
proof -
  define t where "t = time_steps self"
  from assms(3) have t: "0 \<le> t" "j < nat t" unfolding t_def by linarith+
  have pad: "np_pad_time db k ! i ! j = db ! i ! j" for k
    using assms(1,2) by (simp add: np_pad_time_def np_pad_end_def nth_append)
  have trim: "trim_time db t ! i ! j = db ! i ! j"
    using assms(1,2) t by (simp add: trim_time_def py_slice_def slice_bound_def Let_def)
  from pad trim show ?thesis by (simp add: fit_frames_def t_def)
qed

lemma length_fit_frames: "length (fit_frames self db) = length db"
  by (simp add: fit_frames_def np_pad_time_def trim_time_def)

lemma load_and_preprocess_passes_db:
  assumes "load_and_preprocess lib self audio_path = Inr m"
  shows "\<exists>audio S db.
           feature_melspectrogram lib audio (sample_rate self) (n_mels self) 2048 512
             (Some (sample_rate self div 2)) = Inr S \<and>
           power_to_db lib S = Inr db \<and>
           length m = length db \<and>
           (\<forall>i j. i < length db \<and> j < length (db ! i) \<and> int j < time_steps self \<longrightarrow>
                  m ! i ! j = db ! i ! j)"
proof -
  from assms obtain audio S db where
    S: "feature_melspectrogram lib audio (sample_rate self) (n_mels self) 2048 512
          (Some (sample_rate self div 2)) = Inr S"
    and db: "power_to_db lib S = Inr db"
    and m: "m = fit_frames self db"
    unfolding load_and_preprocess_def by (auto split: sum.splits)
  have "length m = length db"
    by (simp add: m length_fit_frames)
  moreover have "\<forall>i j. i < length db \<and> j < length (db ! i) \<and> int j < time_steps self \<longrightarrow>
                  m ! i ! j = db ! i ! j"
    unfolding m using fit_frames_keeps_entries by blast
  ultimately show ?thesis using S db by blast
qed

lemma array_min_mem:
  assumes "array_min m = Inr lo"
  shows "lo \<in> set (concat m)"
proof -
  from assms obtain y ys where c: "concat m = y # ys" and lo: "lo = fold min ys y"
    by (auto simp: array_min_def split: list.splits)
  have "fold min ys y = Min (set (y # ys))" by (rule Min.set_eq_fold [symmetric])
  moreover have "Min (set (y # ys)) \<in> set (y # ys)" by (intro Min_in) simp_all
  ultimately show ?thesis using lo c by simp
qed

text \<open>
  C10. When the file decodes, the serving extractor returns a tensor all of whose entries
  lie between 0 and 1: it is the decibel spectrogram \<open>db\<close> of the one-second buffer,
  rescaled by its minimum and its maximum, and when all entries of \<open>db\<close> are equal, all
  entries of the tensor are 0. The extractor of the dataset does not rescale: each entry of
  its decibel spectrogram \<open>db'\<close> that lies within the first \<open>time_steps\<close> columns is
  returned as it is. The library is assumed to keep its contract.
\<close>

theorem serving_features_normalised:
  assumes "librosa_contract lib"
    and "librosa_load lib audio_path SAMPLE_RATE (Some DURATION) = Inr y"
    and "load_and_preprocess lib self train_path = Inr m"
  shows "(\<exists>S db lo hi t.
            feature_melspectrogram lib (fit_duration y) SAMPLE_RATE N_MELS N_FFT HOP_LENGTH
              None = Inr S \<and>
            power_to_db lib S = Inr db \<and>
            array_min db = Inr lo \<and> array_max db = Inr hi \<and>
            extract_features lib audio_path = Some t \<and>
            t = add_axes (map (map (\<lambda>x. (x - lo) / (hi - lo + 1 / 10 ^ 8))) db) \<and>
            (\<forall>x \<in> set (entries t). 0 \<le> x \<and> x \<le> 1) \<and>
            ((\<forall>a \<in> set (concat db). \<forall>b \<in> set (concat db). a = b) \<longrightarrow>
             (\<forall>x \<in> set (entries t). x = 0))) \<and>
         (\<exists>audio S' db'.
            feature_melspectrogram lib audio (sample_rate self) (n_mels self) 2048 512
              (Some (sample_rate self div 2)) = Inr S' \<and>
            power_to_db lib S' = Inr db' \<and>
            length m = length db' \<and>
            (\<forall>i j. i < length db' \<and> j < length (db' ! i) \<and> int j < time_steps self \<longrightarrow>
                   m ! i ! j = db' ! i ! j))"
proof
  from assms(1,2) obtain S db lo hi where
    S: "feature_melspectrogram lib (fit_duration y) SAMPLE_RATE N_MELS N_FFT HOP_LENGTH None =
          Inr S"
    and db: "power_to_db lib S = Inr db"
    and lo: "array_min db = Inr lo" and hi: "array_max db = Inr hi"
    and res: "extract_features lib audio_path =
             Some (add_axes (map (map (\<lambda>x. (x - lo) / (hi - lo + 1 / 10 ^ 8))) db))"
    using extract_features_result by blast
  define t where "t = add_axes (map (map (\<lambda>x. (x - lo) / (hi - lo + 1 / 10 ^ 8))) db)"
  have ent: "set (entries t) = (\<lambda>x. (x - lo) / (hi - lo + 1 / 10 ^ 8)) ` set (concat db)"
    unfolding t_def entries_add_axes by (rule set_concat_map_map)
  have bounds: "\<forall>x \<in> set (entries t). 0 \<le> x \<and> x \<le> 1"
    unfolding ent using array_min_le [OF lo] array_max_ge [OF hi] normalised_bounds by blast
  have const: "\<forall>x \<in> set (entries t). x = 0"
    if eq: "\<forall>a \<in> set (concat db). \<forall>b \<in> set (concat db). a = b"
  proof
    fix x assume "x \<in> set (entries t)"
    then obtain v where v: "v \<in> set (concat db)" and x: "x = (v - lo) / (hi - lo + 1 / 10 ^ 8)"
      unfolding ent by blast
    from eq v array_min_mem [OF lo] have "v = lo" by blast
    with x show "x = 0" by simp
  qed
  from S db lo hi res bounds const
  show "\<exists>S db lo hi t.
            feature_melspectrogram lib (fit_duration y) SAMPLE_RATE N_MELS N_FFT HOP_LENGTH
              None = Inr S \<and>
            power_to_db lib S = Inr db \<and>
            array_min db = Inr lo \<and> array_max db = Inr hi \<and>
            extract_features lib audio_path = Some t \<and>
            t = add_axes (map (map (\<lambda>x. (x - lo) / (hi - lo + 1 / 10 ^ 8))) db) \<and>
            (\<forall>x \<in> set (entries t). 0 \<le> x \<and> x \<le> 1) \<and>
            ((\<forall>a \<in> set (concat db). \<forall>b \<in> set (concat db). a = b) \<longrightarrow>
             (\<forall>x \<in> set (entries t). x = 0))"
    unfolding t_def by blast
next
  from assms(3)
  show "\<exists>audio S' db'.
            feature_melspectrogram lib audio (sample_rate self) (n_mels self) 2048 512
              (Some (sample_rate self div 2)) = Inr S' \<and>
            power_to_db lib S' = Inr db' \<and>
            length m = length db' \<and>
            (\<forall>i j. i < length db' \<and> j < length (db' ! i) \<and> int j < time_steps self \<longrightarrow>
                   m ! i ! j = db' ! i ! j)"
    by (rule load_and_preprocess_passes_db)
qed

lemma example_serving_decodes:
  "librosa_load example_librosa ''data/clip.wav'' SAMPLE_RATE (Some DURATION) =
     Inr (replicate 100 0 @ [0.5, - 1, 0.25, 0] @ replicate 100 0)"
  by (simp add: example_librosa_def)

theorem serving_features_normalised_witness:
  "librosa_contract example_librosa \<and>
   librosa_load example_librosa ''data/clip.wav'' SAMPLE_RATE (Some DURATION) =
     Inr (replicate 100 0 @ [0.5, - 1, 0.25, 0] @ replicate 100 0) \<and>
   load_and_preprocess example_librosa example_dataset ''data/clip.wav'' =
     Inr [[- 59, 0], [- 38, 0]] \<and>
   (\<exists>t. extract_features example_librosa ''data/clip.wav'' = Some t \<and>
        list_all (\<lambda>x. 0 \<le> x \<and> x \<le> 1) (entries t))"
proof -
  from serving_features_normalised
         [OF example_librosa_contract example_serving_decodes example_training_features]
  obtain t where "extract_features example_librosa ''data/clip.wav'' = Some t"
    and "\<forall>x \<in> set (entries t). 0 \<le> x \<and> x \<le> 1"
    by blast
  with example_librosa_contract example_serving_decodes example_training_features
  show ?thesis unfolding list_all_iff by blast
qed

subsection \<open>Command line\<close>

text \<open>
  C9. For every command line, every state of the model files and every draw, \<^verbatim>\<open>main\<close>
  returns: no exception leaves it. It prints either the result with the keys
  \<^verbatim>\<open>emotion\<close> and \<^verbatim>\<open>confidence\<close> and exits with status 0, or the error payload with the
  message, \<^verbatim>\<open>neutral\<close> and 0.5 and exits with status 1. A missing path argument and an
  exception raised by the classifier give the error payload, a returned classification
  gives the result.
\<close>

theorem cli_never_raises:
  "\<exists>out status.
     main lib fs d argv = Inr (out, status) \<and>
     ((status = 0 \<and>
       (\<exists>emotion confidence.
          out = [(''emotion'', JStr emotion), (''confidence'', JNum confidence)])) \<or>
      (status = 1 \<and>
       (\<exists>message.
          out = [(''error'', JStr message), (''emotion'', JStr ''neutral''),
                 (''confidence'', JNum 0.5)]))) \<and>
     (length argv < 2 \<longrightarrow> status = 1) \<and>
     (\<forall>e. 2 \<le> length argv \<and> classify lib d (EmotionClassifier_init fs) (argv ! 1) = Inl e \<longrightarrow>
          status = 1 \<and>
          out = [(''error'', JStr (str_exn e)), (''emotion'', JStr ''neutral''),
                 (''confidence'', JNum 0.5)]) \<and>
     (\<forall>emotion confidence.
          2 \<le> length argv \<and>
          classify lib d (EmotionClassifier_init fs) (argv ! 1) = Inr (emotion, confidence) \<longrightarrow>
          status = 0 \<and>
          out = [(''emotion'', JStr emotion), (''confidence'', JNum confidence)])"
proof (cases "length argv < 2")
  case True
  then show ?thesis by (simp add: main_def)
next
  case False
  show ?thesis
  proof (cases "classify lib d (EmotionClassifier_init fs) (argv ! 1)")
    case (Inl e)
    with False show ?thesis
      by (simp add: main_def try_except_def get_classifier_def Let_def)
  next
    case (Inr r)
    obtain emotion confidence where "r = (emotion, confidence)" by (cases r) auto
    with Inr False show ?thesis
      by (simp add: main_def try_except_def get_classifier_def Let_def)
  qed
qed

lemma example_features_exist:
  "\<exists>t. extract_features example_librosa ''data/clip.wav'' = Some t"
  using extract_features_result [OF example_librosa_contract example_serving_decodes]
  by blast

lemma failing_model_raises:
  "classify example_librosa \<lparr>choice_index = 3, random_draw = 0.5\<rparr>
     (EmotionClassifier_init failing_model_files) ''data/clip.wav'' =
     Inl (ValueError ''incompatible input shape'')"
proof -
  from example_features_exist obtain t where
    "extract_features example_librosa ''data/clip.wav'' = Some t" by blast
  then show ?thesis
    by (simp add: classify_def EmotionClassifier_init_def failing_model_files_def load_model_def)
qed

lemma no_model_classifies:
  "classify example_librosa \<lparr>choice_index = 3, random_draw = 0.5\<rparr>
     (EmotionClassifier_init no_model_files) ''data/clip.wav'' = Inr (''surprised'', 0.75)"
  by (simp add: classify_def EmotionClassifier_init_def no_model_files_def stub_classify_def
      EMOTIONS_def)

theorem cli_never_raises_witness:
  "length [''classify_audio.py''] < 2 \<and>
   (\<exists>out. main example_librosa no_model_files \<lparr>choice_index = 3, random_draw = 0.5\<rparr>
            [''classify_audio.py''] = Inr (out, 1)) \<and>
   2 \<le> length [''classify_audio.py'', ''data/clip.wav''] \<and>
   classify example_librosa \<lparr>choice_index = 3, random_draw = 0.5\<rparr>
     (EmotionClassifier_init failing_model_files)
     ([''classify_audio.py'', ''data/clip.wav''] ! 1) =
     Inl (ValueError ''incompatible input shape'') \<and>
   main example_librosa failing_model_files \<lparr>choice_index = 3, random_draw = 0.5\<rparr>
     [''classify_audio.py'', ''data/clip.wav''] =
     Inr ([(''error'', JStr ''incompatible input shape''), (''emotion'', JStr ''neutral''),
           (''confidence'', JNum 0.5)], 1) \<and>
   classify example_librosa \<lparr>choice_index = 3, random_draw = 0.5\<rparr>
     (EmotionClassifier_init no_model_files)
     ([''classify_audio.py'', ''data/clip.wav''] ! 1) = Inr (''surprised'', 0.75) \<and>
   main example_librosa no_model_files \<lparr>choice_index = 3, random_draw = 0.5\<rparr>
     [''classify_audio.py'', ''data/clip.wav''] =
     Inr ([(''emotion'', JStr ''surprised''), (''confidence'', JNum 0.75)], 0)"
proof -
  define d where "d = \<lparr>choice_index = 3, random_draw = 0.5\<rparr>"
  define argv1 where "argv1 = [''classify_audio.py'']"
  define argv2 where "argv2 = [''classify_audio.py'', ''data/clip.wav'']"
  have short: "length argv1 < 2" by (simp add: argv1_def)
  have long: "2 \<le> length argv2" by (simp add: argv2_def)
  have a: "\<exists>out. main example_librosa no_model_files d argv1 = Inr (out, 1)"
    using cli_never_raises [of example_librosa no_model_files d argv1] short by auto
  have raises: "classify example_librosa d (EmotionClassifier_init failing_model_files)
                  (argv2 ! 1) = Inl (ValueError ''incompatible input shape'')"
    using failing_model_raises by (simp add: argv2_def d_def)
  obtain out status where
    m: "main example_librosa failing_model_files d argv2 = Inr (out, status)"
    and h: "\<forall>e. 2 \<le> length argv2 \<and>
              classify example_librosa d (EmotionClassifier_init failing_model_files)
                (argv2 ! 1) = Inl e \<longrightarrow>
              status = 1 \<and>
              out = [(''error'', JStr (str_exn e)), (''emotion'', JStr ''neutral''),
                     (''confidence'', JNum 0.5)]"
    using cli_never_raises [of example_librosa failing_model_files d argv2] by blast
  from h long raises have "status = 1 \<and>
              out = [(''error'', JStr (str_exn (ValueError ''incompatible input shape''))),
                     (''emotion'', JStr ''neutral''), (''confidence'', JNum 0.5)]"
    by blast
  with m have b: "main example_librosa failing_model_files d argv2 =
     Inr ([(''error'', JStr ''incompatible input shape''), (''emotion'', JStr ''neutral''),
           (''confidence'', JNum 0.5)], 1)"
    by simp
  have returns: "classify example_librosa d (EmotionClassifier_init no_model_files)
                  (argv2 ! 1) = Inr (''surprised'', 0.75)"
    using no_model_classifies by (simp add: argv2_def d_def)
  obtain out' status' where
    m': "main example_librosa no_model_files d argv2 = Inr (out', status')"
    and h': "\<forall>emotion confidence.
              2 \<le> length argv2 \<and>
              classify example_librosa d (EmotionClassifier_init no_model_files)
                (argv2 ! 1) = Inr (emotion, confidence) \<longrightarrow>
              status' = 0 \<and>
              out' = [(''emotion'', JStr emotion), (''confidence'', JNum confidence)]"
    using cli_never_raises [of example_librosa no_model_files d argv2] by blast
  from h' long returns have "status' = 0 \<and>
              out' = [(''emotion'', JStr ''surprised''), (''confidence'', JNum 0.75)]"
    by blast
  with m' have c: "main example_librosa no_model_files d argv2 =
     Inr ([(''emotion'', JStr ''surprised''), (''confidence'', JNum 0.75)], 0)"
    by simp
  from short a long raises b returns c show ?thesis
    unfolding d_def argv1_def argv2_def by blast
qed

end
